theory Spec2Isabelle
  imports Main
begin

section \<open>Asynchronous operations as programs over a state with exceptions\<close>

text \<open>
  Both context providers are sequences of awaited calls wrapped in try/catch. An
  \<^verbatim>\<open>async\<close> function is modelled as a function from the state before the call to
  the settled outcome and the state after it: \<open>Inl e\<close> is a promise rejected with \<open>e\<close>,
  \<open>Inr v\<close> a promise resolved with \<open>v\<close>. Awaited calls always settle in this model;
  several operations in flight at once are not modelled.
\<close>

datatype exn = RemoteFailure string | TypeError string

type_synonym ('s, 'a) prog = "'s \<Rightarrow> (exn + 'a) \<times> 's"

definition ret :: "'a \<Rightarrow> ('s, 'a) prog" where
  "ret x = (\<lambda>s. (Inr x, s))"

definition throw :: "exn \<Rightarrow> ('s, 'a) prog" where
  "throw e = (\<lambda>s. (Inl e, s))"

text \<open>\<open>then_do m f\<close> is \<^verbatim>\<open>const x = await m; f(x)\<close>: a rejection of \<open>m\<close> skips \<open>f\<close>.\<close>

definition then_do :: "('s, 'a) prog \<Rightarrow> ('a \<Rightarrow> ('s, 'b) prog) \<Rightarrow> ('s, 'b) prog" where
  "then_do m f = (\<lambda>s. case m s of (Inl e, s') \<Rightarrow> (Inl e, s') | (Inr x, s') \<Rightarrow> f x s')"

definition next_do :: "('s, 'a) prog \<Rightarrow> ('s, 'b) prog \<Rightarrow> ('s, 'b) prog" where
  "next_do m n = then_do m (\<lambda>_. n)"

text \<open>\<^verbatim>\<open>try { m } catch (error) { h(error) }\<close>\<close>

definition try_catch :: "('s, 'a) prog \<Rightarrow> (exn \<Rightarrow> ('s, 'a) prog) \<Rightarrow> ('s, 'a) prog" where
  "try_catch m h = (\<lambda>s. case m s of (Inl e, s') \<Rightarrow> h e s' | (Inr x, s') \<Rightarrow> (Inr x, s'))"

text \<open>
  \<^verbatim>\<open>try { m } finally { fin }\<close>: the finaliser runs on both outcomes; the outcome of
  \<open>m\<close> stands unless the finaliser itself throws.
\<close>

definition try_finally :: "('s, 'a) prog \<Rightarrow> ('s, unit) prog \<Rightarrow> ('s, 'a) prog" where
  "try_finally m fin =
     (\<lambda>s. case m s of (r, s') \<Rightarrow>
        (case fin s' of (Inl e, s'') \<Rightarrow> (Inl e, s'') | (Inr _, s'') \<Rightarrow> (r, s'')))"

section \<open>The API facade (frontend/src/contexts/ApiContext.tsx)\<close>

subsection \<open>Values, remote calls and observable effects\<close>

text \<open>
  The facade is generic in the collection, and the type assertions of the source
  (\<^verbatim>\<open>as FileReference\<close>, \<^verbatim>\<open>as AliceChat\<close>) are erased at run time, so the items it
  passes around are JavaScript values. Numbers are restricted to integers.
\<close>

datatype jsval =
    JUndefined
  | JNull
  | JBool bool
  | JNum int
  | JStr string
  | JArr "jsval list"
  | JObj "(string \<times> jsval) list"

text \<open>JavaScript truthiness, as used by \<^verbatim>\<open>if (result)\<close> and \<^verbatim>\<open>if (fileData.transcript)\<close>.\<close>

fun truthy :: "jsval \<Rightarrow> bool" where
  "truthy JUndefined = False"
| "truthy JNull = False"
| "truthy (JBool b) = b"
| "truthy (JNum n) = (n \<noteq> 0)"
| "truthy (JStr s) = (s \<noteq> [])"
| "truthy (JArr _) = True"
| "truthy (JObj _) = True"

text \<open>
  \<^verbatim>\<open>fileData.transcript\<close>: reading a property of \<^verbatim>\<open>null\<close> or \<^verbatim>\<open>undefined\<close> throws a
  TypeError; an object gives the property or \<^verbatim>\<open>undefined\<close>; the other values have no
  property of that name.
\<close>

fun read_transcript :: "jsval \<Rightarrow> exn + jsval" where
  "read_transcript JUndefined = Inl (TypeError ''Cannot read properties of undefined'')"
| "read_transcript JNull = Inl (TypeError ''Cannot read properties of null'')"
| "read_transcript (JObj kvs) =
     (case map_of kvs ''transcript'' of None \<Rightarrow> Inr JUndefined | Some v \<Rightarrow> Inr v)"
| "read_transcript _ = Inr JUndefined"

text \<open>
  The functions imported from \<^verbatim>\<open>../services/api\<close> are the remote endpoints. A call is
  described by its name and arguments. \<^verbatim>\<open>apiRetrieveFile\<close> is exported unwrapped and
  its parameter list is not visible in the source: it takes the argument list as given.
\<close>

datatype api_call =
    ApiFetchItem string "string option"
  | ApiCreateItem string jsval
  | ApiUpdateItem string string jsval
  | ApiDeleteItem string string
  | ApiExecuteTask string jsval
  | ApiGenerateChatResponse string
  | ApiSendMessage string jsval
  | ApiPurgeAndReinitializeDatabase
  | ApiUploadFileContentReference jsval
  | ApiUpdateFile jsval "string option"
  | ApiRetrieveFile "jsval list"
  | ApiRequestFileTranscript string "string option" "string option"
  | ApiUpdateMessageInChat string jsval

datatype severity = Success | Error | Info

text \<open>
  The \<^verbatim>\<open>onClick\<close> closures all call \<^verbatim>\<open>selectCardItem\<close>. They run when the user clicks,
  not during the operation, so \<open>IdOf item\<close> keeps the captured item whose \<^verbatim>\<open>_id\<close> is read
  then, and \<open>GivenId i\<close> the identifier that was passed in.
\<close>

datatype id_source = IdOf jsval | GivenId string

datatype on_click = SelectCardItem string id_source "jsval option"

record action =
  label :: string
  onClick :: on_click

record dialog_props =
  title :: string
  content :: string
  confirmText :: string
  cancelText :: string

datatype choice = Confirm | Cancel

datatype log_level = Debug | LogInfo | LogError

datatype effect =
    Call api_call
  | AddNotification string severity "nat option" "action option"
  | Emit string "jsval option"
  | OpenDialog dialog_props
  | Logger log_level string

text \<open>
  What lies outside \<^verbatim>\<open>ApiContext.tsx\<close> is a parameter of the model:
  \<^item> \<open>remote\<close>: how the backend settles each remote call. No operation of the facade
    issues the same call twice, so a function of the call loses nothing.
  \<^item> \<open>dialog\<close>: what the user answers to each dialog.
  \<^item> \<open>collectionNameToElementString\<close>: the lookup table of \<^verbatim>\<open>../types/CollectionTypes\<close>.
  \<^verbatim>\<open>addNotification\<close>, \<^verbatim>\<open>globalEventEmitter.emit\<close> and the \<^verbatim>\<open>Logger\<close> are taken not to
  throw.
\<close>

record env =
  remote :: "api_call \<Rightarrow> exn + jsval"
  dialog :: "dialog_props \<Rightarrow> choice"
  collectionNameToElementString :: "string \<Rightarrow> string"

text \<open>
  A template literal such as \<^verbatim>\<open>`Error creating ${collectionName}`\<close> is the concatenation of
  its parts.
\<close>

definition template :: "string list \<Rightarrow> string" where
  "template parts = concat parts"

type_synonym 'a facade_prog = "(effect list, 'a) prog"

definition perform :: "effect \<Rightarrow> unit facade_prog" where
  "perform e = (\<lambda>tr. (Inr (), tr @ [e]))"

definition await :: "env \<Rightarrow> api_call \<Rightarrow> jsval facade_prog" where
  "await env c = (\<lambda>tr. (remote env c, tr @ [Call c]))"

definition addNotification ::
    "string \<Rightarrow> severity \<Rightarrow> nat option \<Rightarrow> action option \<Rightarrow> unit facade_prog" where
  "addNotification message sev duration act = perform (AddNotification message sev duration act)"

definition emitEvent :: "string \<Rightarrow> string \<Rightarrow> jsval \<Rightarrow> unit facade_prog" where
  "emitEvent eventType collectionName item =
     perform (Emit (template [eventType, '':'', collectionName]) (Some item))"

text \<open>
  Modelled from the spec: \<^verbatim>\<open>openDialog\<close> of the dialog provider
  (\<^verbatim>\<open>DialogCustomContext\<close>, not among the sources). By its contract exactly one of
  \<^verbatim>\<open>onConfirm\<close> and \<^verbatim>\<open>onCancel\<close> fires, exactly once, per invocation: opening a dialog
  yields the user's answer, and the operation goes on with the callback for it.
\<close>

definition openDialog :: "env \<Rightarrow> dialog_props \<Rightarrow> choice facade_prog" where
  "openDialog env props = (\<lambda>tr. (Inr (dialog env props), tr @ [OpenDialog props]))"

subsection \<open>The operations\<close>

text \<open>The two dialogs the facade opens.\<close>

definition deletionDialog :: "env \<Rightarrow> string \<Rightarrow> dialog_props" where
  "deletionDialog env collectionName =
     \<lparr>title = ''Confirm Deletion'',
      content = template [''Are you sure you want to delete this '',
                          collectionNameToElementString env collectionName, ''?''],
      confirmText = ''Delete'',
      cancelText = ''Cancel''\<rparr>"

definition transcriptDialog :: dialog_props where
  "transcriptDialog =
     \<lparr>title = ''Existing Transcript'',
      content = ''This file already has a transcript. Do you want to generate a new one?'',
      confirmText = ''Generate New'',
      cancelText = ''Use Existing''\<rparr>"

definition createItem :: "env \<Rightarrow> string \<Rightarrow> jsval \<Rightarrow> jsval facade_prog" where
  "createItem env collectionName itemData =
     try_catch
       (then_do (await env (ApiCreateItem collectionName itemData)) (\<lambda>createdItem.
        next_do (perform (Logger Debug (template [''Created '', collectionName, '':''])))
       (next_do (addNotification (template [collectionName, '' created successfully'']) Success (Some 5000)
                   (Some \<lparr>label = ''View'',
                          onClick = SelectCardItem (collectionNameToElementString env collectionName)
                                      (IdOf createdItem) None\<rparr>))
       (next_do (emitEvent ''created'' collectionName createdItem)
                (ret createdItem)))))
       (\<lambda>error.
        next_do (addNotification (template [''Error creating '', collectionName]) Error None None)
                (throw error))"

definition updateItem :: "env \<Rightarrow> string \<Rightarrow> string \<Rightarrow> jsval \<Rightarrow> jsval facade_prog" where
  "updateItem env collectionName itemId itemData =
     try_catch
       (then_do (await env (ApiUpdateItem collectionName itemId itemData)) (\<lambda>updatedItem.
        next_do (addNotification (template [collectionName, '' updated successfully'']) Success (Some 5000)
                   (Some \<lparr>label = ''View'',
                          onClick = SelectCardItem (collectionNameToElementString env collectionName)
                                      (GivenId itemId) None\<rparr>))
       (next_do (emitEvent ''updated'' collectionName updatedItem)
                (ret updatedItem))))
       (\<lambda>error.
        next_do (addNotification (template [''Error updating '', collectionName]) Error None None)
                (throw error))"

text \<open>
  \<^verbatim>\<open>deleteItem\<close> returns a promise that only the dialog's callbacks settle, and both
  callbacks call \<^verbatim>\<open>resolve\<close>; there is no \<^verbatim>\<open>reject\<close>.
\<close>

definition deleteItem :: "env \<Rightarrow> string \<Rightarrow> string \<Rightarrow> bool facade_prog" where
  "deleteItem env collectionName itemId =
     then_do (openDialog env (deletionDialog env collectionName)) (\<lambda>answer.
       case answer of
         Confirm \<Rightarrow>
           try_catch
             (next_do (await env (ApiDeleteItem collectionName itemId))
             (next_do (addNotification
                         (template [collectionNameToElementString env collectionName, '' deleted successfully''])
                         Success None None)
             (next_do (emitEvent ''deleted'' collectionName (JObj [(''_id'', JStr itemId)]))
                      (ret True))))
             (\<lambda>error.
              next_do (addNotification (template [''Error deleting '', collectionName]) Error None None)
             (next_do (perform (Logger LogError (template [''Error deleting item from '', collectionName, '':''])))
                      (ret False)))
       | Cancel \<Rightarrow>
           next_do (addNotification (template [''Deletion of '', collectionName, '' cancelled'']) Info None None)
                   (ret False))"

definition executeTask :: "env \<Rightarrow> string \<Rightarrow> jsval \<Rightarrow> jsval facade_prog" where
  "executeTask env taskId inputs =
     try_catch
       (then_do (await env (ApiExecuteTask taskId inputs)) (\<lambda>result.
        next_do (addNotification ''Task executed successfully'' Success (Some 5000)
                   (Some \<lparr>label = ''View Result'',
                          onClick = SelectCardItem ''TaskResponse'' (IdOf result) None\<rparr>))
       (next_do (emitEvent ''created'' ''taskresults'' result)
                (ret result))))
       (\<lambda>error.
        next_do (addNotification ''Error executing task'' Error None None)
                (throw error))"

definition generateChatResponse :: "env \<Rightarrow> string \<Rightarrow> jsval facade_prog" where
  "generateChatResponse env chatId =
     try_catch
       (then_do (await env (ApiGenerateChatResponse chatId)) (\<lambda>result.
        next_do (addNotification ''Chat response generated successfully'' Success None None)
       (next_do (if truthy result
                 then then_do (await env (ApiFetchItem ''chats'' (Some chatId))) (\<lambda>updatedChat.
                      emitEvent ''updated'' ''chats'' updatedChat)
                 else ret ())
                (ret result))))
       (\<lambda>error.
        next_do (addNotification ''Error generating chat response'' Error None None)
                (throw error))"

definition sendMessage :: "env \<Rightarrow> string \<Rightarrow> jsval \<Rightarrow> jsval facade_prog" where
  "sendMessage env chatId message =
     try_catch
       (then_do (await env (ApiSendMessage chatId message)) (\<lambda>result.
        next_do (addNotification ''Message sent successfully'' Success None None)
       (next_do (emitEvent ''created'' ''messages'' message)
       (next_do (emitEvent ''updated'' ''chats'' result)
                (ret result)))))
       (\<lambda>error.
        next_do (addNotification ''Error sending message'' Error None None)
                (throw error))"

definition uploadFileContentReference :: "env \<Rightarrow> jsval \<Rightarrow> jsval facade_prog" where
  "uploadFileContentReference env itemData =
     try_catch
       (then_do (await env (ApiUploadFileContentReference itemData)) (\<lambda>result.
        next_do (addNotification ''File uploaded successfully'' Success (Some 5000)
                   (Some \<lparr>label = ''View File'',
                          onClick = SelectCardItem ''File'' (IdOf result) None\<rparr>))
       (next_do (emitEvent ''created'' ''files'' result)
                (ret result))))
       (\<lambda>error.
        next_do (addNotification ''Error uploading file'' Error None None)
                (throw error))"

definition updateFile :: "env \<Rightarrow> jsval \<Rightarrow> string option \<Rightarrow> jsval facade_prog" where
  "updateFile env file fileId =
     try_catch
       (then_do (await env (ApiUpdateFile file fileId)) (\<lambda>result.
        next_do (addNotification ''File updated successfully'' Success (Some 5000)
                   (Some \<lparr>label = ''View File'',
                          onClick = SelectCardItem ''File'' (IdOf result) (Some result)\<rparr>))
       (next_do (emitEvent ''updated'' ''files'' result)
                (ret result))))
       (\<lambda>error.
        next_do (addNotification ''Error updating file'' Error None None)
                (throw error))"

text \<open>
  The promise that \<^verbatim>\<open>requestFileTranscript\<close> builds around the dialog. It is returned
  from inside the \<^verbatim>\<open>try\<close> block without \<^verbatim>\<open>await\<close>, so the block has completed when
  the callbacks run: a \<^verbatim>\<open>reject\<close> in \<^verbatim>\<open>onConfirm\<close> does not reach the outer
  \<^verbatim>\<open>catch\<close>. The executor itself, and so \<^verbatim>\<open>openDialog\<close>, runs inside the block.
\<close>

definition existingTranscriptDialog ::
    "env \<Rightarrow> string \<Rightarrow> string option \<Rightarrow> string option \<Rightarrow> jsval \<Rightarrow> choice \<Rightarrow> jsval facade_prog" where
  "existingTranscriptDialog env fileId agentId chatId fileData answer =
     (case answer of
        Confirm \<Rightarrow>
          try_catch
            (then_do (await env (ApiRequestFileTranscript fileId agentId chatId)) (\<lambda>newTranscript.
             next_do (updateItem env ''files'' fileId (JObj [(''transcript'', newTranscript)]))
            (next_do (addNotification ''New transcript generated successfully'' Success None None)
                     (ret newTranscript))))
            (\<lambda>error.
             next_do (addNotification ''Error generating new transcript'' Error None None)
                     (throw error))
      | Cancel \<Rightarrow>
          next_do (addNotification ''Using existing transcript'' Info None None)
                  (\<lambda>tr. (read_transcript fileData, tr)))"

definition requestFileTranscript ::
    "env \<Rightarrow> string \<Rightarrow> string option \<Rightarrow> string option \<Rightarrow> jsval facade_prog" where
  "requestFileTranscript env fileId agentId chatId =
     then_do
       (try_catch
          (next_do (perform (Logger LogInfo (template [''Requesting transcript for file: '', fileId])))
          (then_do (await env (ApiFetchItem ''files'' (Some fileId))) (\<lambda>fileData.
           then_do (\<lambda>tr. (read_transcript fileData, tr)) (\<lambda>existing.
             if truthy existing
             then then_do (openDialog env transcriptDialog) (\<lambda>answer.
                  ret (Inl (fileData, answer)))
             else then_do (await env (ApiRequestFileTranscript fileId agentId chatId)) (\<lambda>transcript.
                  next_do (updateItem env ''files'' fileId (JObj [(''transcript'', transcript)]))
                 (next_do (addNotification ''Transcript generated successfully'' Success None None)
                          (ret (Inr transcript))))))))
          (\<lambda>error.
           next_do (addNotification ''Error requesting transcript'' Error None None)
                   (throw error)))
       (\<lambda>returned.
          case returned of
            Inl (fileData, answer) \<Rightarrow> existingTranscriptDialog env fileId agentId chatId fileData answer
          | Inr transcript \<Rightarrow> ret transcript)"

definition updateMessageInChat :: "env \<Rightarrow> string \<Rightarrow> jsval \<Rightarrow> jsval facade_prog" where
  "updateMessageInChat env chatId message =
     try_catch
       (then_do (await env (ApiUpdateMessageInChat chatId message)) (\<lambda>result.
        next_do (addNotification ''Message updated successfully'' Success None None)
       (next_do (emitEvent ''updated'' ''messages'' result)
       (then_do (await env (ApiFetchItem ''chats'' (Some chatId))) (\<lambda>updatedChat.
        next_do (emitEvent ''updated'' ''chats'' updatedChat)
                (ret result))))))
       (\<lambda>error.
        next_do (addNotification ''Error updating message'' Error None None)
                (throw error))"

definition purgeAndReinitializeDatabase :: "env \<Rightarrow> unit facade_prog" where
  "purgeAndReinitializeDatabase env =
     try_catch
       (next_do (await env ApiPurgeAndReinitializeDatabase)
       (next_do (addNotification ''Database purged and reinitialized successfully'' Success None None)
                (perform (Emit ''databasePurged'' None))))
       (\<lambda>error.
        next_do (addNotification ''Error purging and reinitializing database'' Error None None)
       (next_do (perform (Logger LogError ''Error purging and reinitializing database:''))
                (throw error)))"

text \<open>
  The context value: one entry per operation. \<^verbatim>\<open>fetchItem\<close> and \<^verbatim>\<open>retrieveFile\<close> are the
  service functions themselves, not wrappers. A boolean result is returned as \<open>JBool\<close>,
  \<^verbatim>\<open>void\<close> as \<open>JUndefined\<close>.
\<close>

datatype facade_call =
    FetchItem string "string option"
  | CreateItem string jsval
  | UpdateItem string string jsval
  | DeleteItem string string
  | ExecuteTask string jsval
  | GenerateChatResponse string
  | SendMessage string jsval
  | PurgeAndReinitializeDatabase
  | UploadFileContentReference jsval
  | UpdateFile jsval "string option"
  | RetrieveFile "jsval list"
  | RequestFileTranscript string "string option" "string option"
  | UpdateMessageInChat string jsval

fun facade :: "env \<Rightarrow> facade_call \<Rightarrow> jsval facade_prog" where
  "facade env (FetchItem collectionName itemId) = await env (ApiFetchItem collectionName itemId)"
| "facade env (CreateItem collectionName itemData) = createItem env collectionName itemData"
| "facade env (UpdateItem collectionName itemId itemData) =
     updateItem env collectionName itemId itemData"
| "facade env (DeleteItem collectionName itemId) =
     then_do (deleteItem env collectionName itemId) (\<lambda>b. ret (JBool b))"
| "facade env (ExecuteTask taskId inputs) = executeTask env taskId inputs"
| "facade env (GenerateChatResponse chatId) = generateChatResponse env chatId"
| "facade env (SendMessage chatId message) = sendMessage env chatId message"
| "facade env PurgeAndReinitializeDatabase =
     next_do (purgeAndReinitializeDatabase env) (ret JUndefined)"
| "facade env (UploadFileContentReference itemData) = uploadFileContentReference env itemData"
| "facade env (UpdateFile file fileId) = updateFile env file fileId"
| "facade env (RetrieveFile args) = await env (ApiRetrieveFile args)"
| "facade env (RequestFileTranscript fileId agentId chatId) =
     requestFileTranscript env fileId agentId chatId"
| "facade env (UpdateMessageInChat chatId message) = updateMessageInChat env chatId message"

subsection \<open>Observing a run of the facade\<close>

text \<open>An operation is run from the empty trace: its settled outcome and what it did.\<close>

definition outcome :: "'a facade_prog \<Rightarrow> exn + 'a" where
  "outcome p = fst (p [])"

definition effects :: "'a facade_prog \<Rightarrow> effect list" where
  "effects p = snd (p [])"

fun calls :: "effect list \<Rightarrow> api_call list" where
  "calls [] = []"
| "calls (Call c # tr) = c # calls tr"
| "calls (_ # tr) = calls tr"

fun is_call :: "effect \<Rightarrow> bool" where
  "is_call (Call _) = True"
| "is_call _ = False"

fun is_emit :: "effect \<Rightarrow> bool" where
  "is_emit (Emit _ _) = True"
| "is_emit _ = False"

fun is_dialog :: "effect \<Rightarrow> bool" where
  "is_dialog (OpenDialog _) = True"
| "is_dialog _ = False"

fun is_notification :: "severity \<Rightarrow> effect \<Rightarrow> bool" where
  "is_notification sev (AddNotification _ sev' _ _) = (sev' = sev)"
| "is_notification _ _ = False"

text \<open>
  The side-effect ordering of the specification, on the trace of a run against \<open>env\<close>.
  \<open>resolved env c\<close>: the backend resolves the call \<open>c\<close>. \<open>notified_after_resolved\<close> walks
  the trace with the remote calls made so far: at every success notification at least
  one remote call has been made and every call made so far has resolved.
  \<open>notified_before_published\<close> adds that once an event has been published no success
  notification follows.
\<close>

definition resolved :: "env \<Rightarrow> api_call \<Rightarrow> bool" where
  "resolved env c = (case remote env c of Inl _ \<Rightarrow> False | Inr _ \<Rightarrow> True)"

fun notified_after_resolved :: "env \<Rightarrow> api_call list \<Rightarrow> effect list \<Rightarrow> bool" where
  "notified_after_resolved env made [] = True"
| "notified_after_resolved env made (Call c # tr) = notified_after_resolved env (made @ [c]) tr"
| "notified_after_resolved env made (AddNotification _ Success _ _ # tr) =
     (made \<noteq> [] \<and> list_all (resolved env) made \<and> notified_after_resolved env made tr)"
| "notified_after_resolved env made (_ # tr) = notified_after_resolved env made tr"

definition notified_before_published :: "env \<Rightarrow> effect list \<Rightarrow> bool" where
  "notified_before_published env tr \<longleftrightarrow>
     list_all (\<lambda>e. \<not> is_notification Success e) (dropWhile (\<lambda>e. \<not> is_emit e) tr) \<and>
     notified_after_resolved env [] tr"

text \<open>The operations that wrap one service function in try/catch with notifications.\<close>

fun wrapped :: "facade_call \<Rightarrow> bool" where
  "wrapped (FetchItem _ _) = False"
| "wrapped (RetrieveFile _) = False"
| "wrapped (DeleteItem _ _) = False"
| "wrapped (RequestFileTranscript _ _ _) = False"
| "wrapped _ = True"

fun is_requestFileTranscript :: "facade_call \<Rightarrow> bool" where
  "is_requestFileTranscript (RequestFileTranscript _ _ _) = True"
| "is_requestFileTranscript _ = False"

text \<open>Concrete backends and users, for running the operations on examples.\<close>

definition backend_ok :: "api_call \<Rightarrow> exn + jsval" where
  "backend_ok c =
     (case c of
        ApiFetchItem _ _ \<Rightarrow> Inr (JObj [(''_id'', JStr ''f1'')])
      | ApiRequestFileTranscript _ _ _ \<Rightarrow> Inr (JObj [(''role'', JStr ''assistant'')])
      | _ \<Rightarrow> Inr (JObj [(''_id'', JStr ''x1'')]))"

definition backend_with_transcript :: "api_call \<Rightarrow> exn + jsval" where
  "backend_with_transcript c =
     (case c of
        ApiFetchItem _ _ \<Rightarrow>
          Inr (JObj [(''_id'', JStr ''f1''), (''transcript'', JObj [(''role'', JStr ''tool'')])])
      | ApiRequestFileTranscript _ _ _ \<Rightarrow> Inr (JObj [(''role'', JStr ''assistant'')])
      | _ \<Rightarrow> Inr (JObj [(''_id'', JStr ''x1'')]))"

definition backend_down :: "api_call \<Rightarrow> exn + jsval" where
  "backend_down c = Inl (RemoteFailure ''503'')"

definition backend_update_down :: "api_call \<Rightarrow> exn + jsval" where
  "backend_update_down c =
     (case c of ApiUpdateItem _ _ _ \<Rightarrow> Inl (RemoteFailure ''503'') | _ \<Rightarrow> backend_ok c)"

definition env_of :: "(api_call \<Rightarrow> exn + jsval) \<Rightarrow> choice \<Rightarrow> env" where
  "env_of backend answer =
     \<lparr>remote = backend, dialog = (\<lambda>_. answer), collectionNameToElementString = (\<lambda>c. c)\<rparr>"

section \<open>The chat session controller (alice_frontend/src/contexts/ChatContext.tsx)\<close>

subsection \<open>Entities, state and the functions obtained from \<^verbatim>\<open>useApi\<close>\<close>

text \<open>
  The controller reads fields of what it fetches, so its entities are records with the
  fields it reads (the declarations under \<^verbatim>\<open>../types\<close> are not among the sources).
  A task's \<^verbatim>\<open>_id\<close> is \<open>task_id\<close>; a chat's \<^verbatim>\<open>messages\<close> is \<open>chat_messages\<close>, since
  \<open>messages\<close> names the state variable; \<^verbatim>\<open>functions\<close> is \<open>chat_functions\<close> and may
  be absent (\<^verbatim>\<open>currentChat.functions || []\<close>).
\<close>

record message =
  role :: string
  text_content :: string

type_synonym agent = string

type_synonym task_response = string

record task =
  task_id :: "string option"
  task_name :: string

record chat =
  chat_messages :: "message list"
  alice_agent :: agent
  chat_functions :: "task list option"

text \<open>
  \<^verbatim>\<open>fetchItem\<close> of a whole collection is typed \<^verbatim>\<open>AliceTask | AliceTask[]\<close>: one item or
  an array, told apart by \<^verbatim>\<open>Array.isArray\<close>.
\<close>

datatype 'a fetched = Single 'a | Collection "'a list"

datatype chat_patch = PatchMessages "message list" | PatchFunctions "task list"

datatype request =
    FetchChats
  | FetchChat string
  | FetchTask string
  | FetchTasks
  | FetchTaskResults
  | UpdateChat string chat_patch
  | SendMessageTo string message
  | GenerateResponseFor string

text \<open>
  What the controller does, in order: the requests it sends, the lines it logs and the
  calls of the state setters, each with the value it sets.
\<close>

datatype chat_effect =
    Request request
  | LoggerError string
  | LoggerWarn string
  | SetMessages "message list"
  | SetPastChats "chat list"
  | SetCurrentChatId "string option"
  | SetAgents "agent list"
  | SetIsGenerating bool
  | SetCurrentChat "chat option"

text \<open>
  The four functions taken from \<^verbatim>\<open>useApi()\<close> (\<^verbatim>\<open>fetchItem\<close>, \<^verbatim>\<open>updateItem\<close>,
  \<^verbatim>\<open>sendMessage\<close>, \<^verbatim>\<open>generateChatResponse\<close>) belong to the API context of this
  front-end, which is not among the sources: how each call settles is a parameter, one
  field per use the controller makes of them. \<^verbatim>\<open>fetchItem("tasks", taskId)\<close> may resolve
  with nothing (\<^verbatim>\<open>if (!task)\<close>). No operation issues the same request twice.
\<close>

record api =
  api_fetchItem_chats :: "exn + chat list"
  api_fetchItem_chat :: "string \<Rightarrow> exn + chat"
  api_fetchItem_task :: "string \<Rightarrow> exn + task option"
  api_fetchItem_tasks :: "exn + task fetched"
  api_fetchItem_taskresults :: "exn + task_response fetched"
  api_updateItem_chats :: "string \<Rightarrow> chat_patch \<Rightarrow> exn + chat"
  api_sendMessage :: "string \<Rightarrow> message \<Rightarrow> exn + chat"
  api_generateChatResponse :: "string \<Rightarrow> exn + bool"

text \<open>
  The \<^verbatim>\<open>useState\<close> variables of the provider, and \<open>history\<close>: what the controller has
  done so far. The effect that calls \<^verbatim>\<open>fetchChats\<close> once a user is signed in is not modelled.
  An operation reads the variables its closure captured; inside one operation no variable
  is read after it was set, except through the functional update of \<^verbatim>\<open>setMessages\<close>, so
  reading the current state is the same. Between two operations it is not: see
  \<open>addTaskToChat_in\<close> below.
\<close>

record chat_state =
  messages :: "message list"
  pastChats :: "chat list"
  currentChatId :: "string option"
  agents :: "agent list"
  isGenerating :: bool
  currentChat :: "chat option"
  history :: "chat_effect list"

type_synonym 'a chat_prog = "(chat_state, 'a) prog"

definition initial_state :: chat_state where
  "initial_state =
     \<lparr>messages = [], pastChats = [], currentChatId = None, agents = [],
      isGenerating = False, currentChat = None, history = []\<rparr>"

definition get :: "(chat_state \<Rightarrow> 'a) \<Rightarrow> 'a chat_prog" where
  "get var = (\<lambda>s. (Inr (var s), s))"

definition send :: "request \<Rightarrow> exn + 'a \<Rightarrow> 'a chat_prog" where
  "send r settled = (\<lambda>s. (settled, s\<lparr>history := history s @ [Request r]\<rparr>))"

definition logger_error :: "string \<Rightarrow> unit chat_prog" where
  "logger_error msg = (\<lambda>s. (Inr (), s\<lparr>history := history s @ [LoggerError msg]\<rparr>))"

definition logger_warn :: "string \<Rightarrow> unit chat_prog" where
  "logger_warn msg = (\<lambda>s. (Inr (), s\<lparr>history := history s @ [LoggerWarn msg]\<rparr>))"

definition setMessages :: "(message list \<Rightarrow> message list) \<Rightarrow> unit chat_prog" where
  "setMessages f =
     (\<lambda>s. (Inr (), s\<lparr>messages := f (messages s),
                       history := history s @ [SetMessages (f (messages s))]\<rparr>))"

definition setPastChats :: "chat list \<Rightarrow> unit chat_prog" where
  "setPastChats chats =
     (\<lambda>s. (Inr (), s\<lparr>pastChats := chats, history := history s @ [SetPastChats chats]\<rparr>))"

definition setCurrentChatId :: "string option \<Rightarrow> unit chat_prog" where
  "setCurrentChatId i =
     (\<lambda>s. (Inr (), s\<lparr>currentChatId := i, history := history s @ [SetCurrentChatId i]\<rparr>))"

definition setAgents :: "agent list \<Rightarrow> unit chat_prog" where
  "setAgents as =
     (\<lambda>s. (Inr (), s\<lparr>agents := as, history := history s @ [SetAgents as]\<rparr>))"

definition setIsGenerating :: "bool \<Rightarrow> unit chat_prog" where
  "setIsGenerating b =
     (\<lambda>s. (Inr (), s\<lparr>isGenerating := b, history := history s @ [SetIsGenerating b]\<rparr>))"

definition setCurrentChat :: "chat option \<Rightarrow> unit chat_prog" where
  "setCurrentChat c =
     (\<lambda>s. (Inr (), s\<lparr>currentChat := c, history := history s @ [SetCurrentChat c]\<rparr>))"

text \<open>
  \<^verbatim>\<open>!currentChatId\<close> holds for \<^verbatim>\<open>null\<close> and for the empty string. The operations below
  write the guard \<^verbatim>\<open>if (!currentChatId) return;\<close> as a case distinction that also binds
  the identifier.
\<close>

fun no_chat_id :: "string option \<Rightarrow> bool" where
  "no_chat_id None = True"
| "no_chat_id (Some i) = (i = [])"

subsection \<open>The operations\<close>

definition fetchChats :: "api \<Rightarrow> unit chat_prog" where
  "fetchChats api =
     try_catch
       (then_do (send FetchChats (api_fetchItem_chats api)) (\<lambda>chats.
        setPastChats chats))
       (\<lambda>error. logger_error ''Error fetching chats:'')"

definition fetchChatById :: "api \<Rightarrow> string \<Rightarrow> chat chat_prog" where
  "fetchChatById api chatId =
     try_catch
       (then_do (send (FetchChat chatId) (api_fetchItem_chat api chatId)) (\<lambda>chatData.
        ret chatData))
       (\<lambda>error.
        next_do (logger_error ''Error fetching chat by id:'')
                (throw error))"

definition fetchCurrentChat :: "api \<Rightarrow> unit chat_prog" where
  "fetchCurrentChat api =
     then_do (get currentChatId) (\<lambda>chatId.
       case chatId of
         None \<Rightarrow> ret ()
       | Some i \<Rightarrow>
           if i = [] then ret ()
           else try_catch
                  (then_do (fetchChatById api i) (\<lambda>chatData.
                   next_do (setCurrentChat (Some chatData))
                  (next_do (setMessages (\<lambda>_. chat_messages chatData))
                           (setAgents [alice_agent chatData]))))
                  (\<lambda>error. logger_error ''Error fetching current chat:''))"

definition handleSelectChat :: "api \<Rightarrow> string \<Rightarrow> unit chat_prog" where
  "handleSelectChat api chatId =
     try_catch
       (then_do (fetchChatById api chatId) (\<lambda>chatData.
        next_do (setCurrentChat (Some chatData))
       (next_do (setMessages (\<lambda>_. chat_messages chatData))
       (next_do (setCurrentChatId (Some chatId))
                (setAgents [alice_agent chatData])))))
       (\<lambda>error. logger_error ''Error fetching chat:'')"

definition generateResponse :: "api \<Rightarrow> unit chat_prog" where
  "generateResponse api =
     then_do (get currentChatId) (\<lambda>chatId.
       case chatId of
         None \<Rightarrow> ret ()
       | Some i \<Rightarrow>
           if i = [] then ret ()
           else next_do (setIsGenerating True)
                  (try_finally
                     (try_catch
                        (then_do (send (GenerateResponseFor i) (api_generateChatResponse api i))
                           (\<lambda>response.
                         if response then fetchCurrentChat api else ret ()))
                        (\<lambda>error. logger_error ''Error generating response:''))
                     (setIsGenerating False)))"

text \<open>
  The parameter of \<^verbatim>\<open>handleSendMessage\<close> is itself called \<^verbatim>\<open>currentChatId\<close> and hides the
  state variable: the message goes to the chat given, \<^verbatim>\<open>generateResponse\<close> then reads
  the variable.
\<close>

definition handleSendMessage :: "api \<Rightarrow> string \<Rightarrow> message \<Rightarrow> unit chat_prog" where
  "handleSendMessage api chatId message =
     try_catch
       (next_do (send (SendMessageTo chatId message) (api_sendMessage api chatId message))
       (next_do (setMessages (\<lambda>prevMessages. prevMessages @ [message]))
                (generateResponse api)))
       (\<lambda>error. logger_error ''Error sending message or generating response:'')"

text \<open>
  The loop of \<^verbatim>\<open>handleRegenerateResponse\<close>:
  \<^verbatim>\<open>while (newMessages.length > 0 && newMessages[newMessages.length - 1].role !== 'user') newMessages.pop()\<close>
\<close>

function popWhileNotUser :: "message list \<Rightarrow> message list" where
  "popWhileNotUser newMessages =
     (if length newMessages > 0
      then (if role (newMessages ! (length newMessages - 1)) \<noteq> ''user''
            then popWhileNotUser (butlast newMessages)
            else newMessages)
      else newMessages)"
  by pat_completeness auto
termination
  by (relation "measure length") auto

declare popWhileNotUser.simps [simp del]

definition handleRegenerateResponse :: "api \<Rightarrow> unit chat_prog" where
  "handleRegenerateResponse api =
     then_do (get currentChatId) (\<lambda>chatId.
       case chatId of
         None \<Rightarrow> ret ()
       | Some i \<Rightarrow>
           if i = [] then ret ()
           else then_do (get messages) (\<lambda>local.
                let newMessages = popWhileNotUser local in
                try_catch
                  (next_do (send (UpdateChat i (PatchMessages newMessages))
                              (api_updateItem_chats api i (PatchMessages newMessages)))
                  (next_do (setMessages (\<lambda>_. newMessages))
                           (generateResponse api)))
                  (\<lambda>error. logger_error ''Error regenerating response:'')))"

text \<open>
  \<^verbatim>\<open>currentChat?.functions?.some(task => task._id === taskId) || false\<close>, of the
  \<^verbatim>\<open>currentChat\<close> that the closure captured.
\<close>

definition isTaskInChat :: "chat option \<Rightarrow> string \<Rightarrow> bool" where
  "isTaskInChat chat taskId =
     (case chat of
        None \<Rightarrow> False
      | Some c \<Rightarrow>
          (case chat_functions c of
             None \<Rightarrow> False
           | Some fs \<Rightarrow> list_ex (\<lambda>task. task_id task = Some taskId) fs))"

text \<open>
  \<^verbatim>\<open>addTaskToChat\<close> as a render created it: \<open>chatId\<close> and \<open>chat\<close> are the values of
  \<^verbatim>\<open>currentChatId\<close> and \<^verbatim>\<open>currentChat\<close> in that render, which the function and the
  \<^verbatim>\<open>isTaskInChat\<close> it calls read, however the state has changed since.
\<close>

definition addTaskToChat_in :: "string option \<Rightarrow> chat option \<Rightarrow> api \<Rightarrow> string \<Rightarrow> unit chat_prog" where
  "addTaskToChat_in chatId chat api taskId =
     (case (chatId, chat) of
        (Some i, Some c) \<Rightarrow>
          if i = [] then ret ()
          else try_catch
                 (then_do (send (FetchTask taskId) (api_fetchItem_task api taskId)) (\<lambda>fetchedTask.
                  case fetchedTask of
                    None \<Rightarrow> logger_error ''Task not found''
                  | Some task \<Rightarrow>
                      if isTaskInChat chat taskId then logger_warn ''Task already in chat''
                      else let updatedFunctions =
                                 (case chat_functions c of None \<Rightarrow> [] | Some fs \<Rightarrow> fs) @ [task] in
                           next_do (send (UpdateChat i (PatchFunctions updatedFunctions))
                                      (api_updateItem_chats api i (PatchFunctions updatedFunctions)))
                                   (handleSelectChat api i)))
                 (\<lambda>error. logger_error ''Error adding tasks to chat:'')
      | _ \<Rightarrow> ret ())"

text \<open>The function of the current render: the closure holds the current state.\<close>

definition addTaskToChat :: "api \<Rightarrow> string \<Rightarrow> unit chat_prog" where
  "addTaskToChat api taskId =
     then_do (get currentChatId) (\<lambda>chatId.
     then_do (get currentChat) (\<lambda>chat.
       addTaskToChat_in chatId chat api taskId))"

definition fetchAvailableTasks :: "api \<Rightarrow> task list chat_prog" where
  "fetchAvailableTasks api =
     try_catch
       (then_do (send FetchTasks (api_fetchItem_tasks api)) (\<lambda>tasks.
        ret (case tasks of Collection ts \<Rightarrow> ts | Single t \<Rightarrow> [t])))
       (\<lambda>error.
        next_do (logger_error ''Error fetching available tasks:'')
                (ret []))"

definition fetchAvailableTaskResults :: "api \<Rightarrow> task_response list chat_prog" where
  "fetchAvailableTaskResults api =
     try_catch
       (then_do (send FetchTaskResults (api_fetchItem_taskresults api)) (\<lambda>taskResults.
        ret (case taskResults of Collection rs \<Rightarrow> rs | Single r \<Rightarrow> [r])))
       (\<lambda>error.
        next_do (logger_error ''Error fetching available task results:'')
                (ret []))"

subsection \<open>Observing the controller\<close>

text \<open>How often a task identifier occurs in \<^verbatim>\<open>currentChat.functions\<close>.\<close>

definition occurrences :: "chat_state \<Rightarrow> string \<Rightarrow> nat" where
  "occurrences s taskId =
     (case currentChat s of
        None \<Rightarrow> 0
      | Some c \<Rightarrow>
          (case chat_functions c of
             None \<Rightarrow> 0
           | Some fs \<Rightarrow> length (filter (\<lambda>task. task_id task = Some taskId) fs)))"

text \<open>The requests an operation has added to the history of the state it started from.\<close>

fun requests :: "chat_effect list \<Rightarrow> request list" where
  "requests [] = []"
| "requests (Request r # h) = r # requests h"
| "requests (_ # h) = requests h"

definition requests_since :: "chat_state \<Rightarrow> chat_state \<Rightarrow> request list" where
  "requests_since s s' = requests (drop (length (history s)) (history s'))"

text \<open>Concrete messages, chats and backends, for running the operations on examples.\<close>

definition user_says :: "string \<Rightarrow> message" where
  "user_says t = \<lparr>role = ''user'', text_content = t\<rparr>"

definition assistant_says :: "string \<Rightarrow> message" where
  "assistant_says t = \<lparr>role = ''assistant'', text_content = t\<rparr>"

definition search_task :: task where
  "search_task = \<lparr>task_id = Some ''t1'', task_name = ''search''\<rparr>"

definition chat_with :: "task list \<Rightarrow> chat" where
  "chat_with fs =
     \<lparr>chat_messages = [user_says ''hi'', assistant_says ''a'', assistant_says ''b''],
      alice_agent = ''alice'',
      chat_functions = Some fs\<rparr>"

definition unavailable :: exn where
  "unavailable = RemoteFailure ''503''"

definition api_down :: api where
  "api_down =
     \<lparr>api_fetchItem_chats = Inl unavailable,
      api_fetchItem_chat = (\<lambda>_. Inl unavailable),
      api_fetchItem_task = (\<lambda>_. Inl unavailable),
      api_fetchItem_tasks = Inl unavailable,
      api_fetchItem_taskresults = Inl unavailable,
      api_updateItem_chats = (\<lambda>_ _. Inl unavailable),
      api_sendMessage = (\<lambda>_ _. Inl unavailable),
      api_generateChatResponse = (\<lambda>_. Inl unavailable)\<rparr>"

text \<open>A backend that answers every request, and serves the chat \<open>c\<close> and the task \<open>t1\<close>.\<close>

definition api_serving :: "chat \<Rightarrow> api" where
  "api_serving c =
     \<lparr>api_fetchItem_chats = Inr [c],
      api_fetchItem_chat = (\<lambda>_. Inr c),
      api_fetchItem_task = (\<lambda>i. if i = ''t1'' then Inr (Some search_task) else Inr None),
      api_fetchItem_tasks = Inr (Single search_task),
      api_fetchItem_taskresults = Inr (Collection [''r1'', ''r2'']),
      api_updateItem_chats = (\<lambda>_ _. Inr c),
      api_sendMessage = (\<lambda>_ _. Inr c),
      api_generateChatResponse = (\<lambda>_. Inr True)\<rparr>"

text \<open>The state after the chat \<open>c1\<close> with content \<open>c\<close> has been selected.\<close>

definition viewing :: "chat \<Rightarrow> chat_state" where
  "viewing c =
     \<lparr>messages = chat_messages c, pastChats = [], currentChatId = Some ''c1'',
      agents = [alice_agent c], isGenerating = False, currentChat = Some c, history = []\<rparr>"

section \<open>Properties of the API facade\<close>

subsection \<open>Unfolding the operations\<close>

lemmas prog_defs = ret_def throw_def then_do_def next_do_def try_catch_def try_finally_def

lemmas facade_defs = perform_def await_def addNotification_def emitEvent_def openDialog_def
  outcome_def effects_def

lemmas transcript_defs = requestFileTranscript_def existingTranscriptDialog_def updateItem_def

subsection \<open>The paths through \<^verbatim>\<open>requestFileTranscript\<close>\<close>

text \<open>
  One lemma per path: the outcome and the complete trace, from the empty trace, given how
  the remote calls settle and what the user answers.
\<close>

lemma transcript_fetch_rejected:
  assumes "remote env (ApiFetchItem ''files'' (Some fileId)) = Inl e"
  shows "requestFileTranscript env fileId agentId chatId [] =
     (Inl e, [Logger LogInfo (template [''Requesting transcript for file: '', fileId]),
              Call (ApiFetchItem ''files'' (Some fileId)),
              AddNotification ''Error requesting transcript'' Error None None])"
  using assms by (simp add: transcript_defs prog_defs facade_defs)

lemma transcript_unreadable:
  assumes "remote env (ApiFetchItem ''files'' (Some fileId)) = Inr fileData"
      and "read_transcript fileData = Inl e"
  shows "requestFileTranscript env fileId agentId chatId [] =
     (Inl e, [Logger LogInfo (template [''Requesting transcript for file: '', fileId]),
              Call (ApiFetchItem ''files'' (Some fileId)),
              AddNotification ''Error requesting transcript'' Error None None])"
  using assms by (simp add: transcript_defs prog_defs facade_defs)

lemma transcript_use_existing:
  assumes "remote env (ApiFetchItem ''files'' (Some fileId)) = Inr fileData"
      and "read_transcript fileData = Inr existing" and "truthy existing"
      and "dialog env transcriptDialog = Cancel"
  shows "requestFileTranscript env fileId agentId chatId [] =
     (Inr existing, [Logger LogInfo (template [''Requesting transcript for file: '', fileId]),
              Call (ApiFetchItem ''files'' (Some fileId)),
              OpenDialog transcriptDialog,
              AddNotification ''Using existing transcript'' Info None None])"
  using assms by (simp add: transcript_defs prog_defs facade_defs)

lemma transcript_regenerate_rejected:
  assumes "remote env (ApiFetchItem ''files'' (Some fileId)) = Inr fileData"
      and "read_transcript fileData = Inr existing" and "truthy existing"
      and "dialog env transcriptDialog = Confirm"
      and "remote env (ApiRequestFileTranscript fileId agentId chatId) = Inl e"
  shows "requestFileTranscript env fileId agentId chatId [] =
     (Inl e, [Logger LogInfo (template [''Requesting transcript for file: '', fileId]),
              Call (ApiFetchItem ''files'' (Some fileId)),
              OpenDialog transcriptDialog,
              Call (ApiRequestFileTranscript fileId agentId chatId),
              AddNotification ''Error generating new transcript'' Error None None])"
  using assms by (simp add: transcript_defs prog_defs facade_defs)

lemma transcript_regenerate_not_persisted:
  assumes "remote env (ApiFetchItem ''files'' (Some fileId)) = Inr fileData"
      and "read_transcript fileData = Inr existing" and "truthy existing"
      and "dialog env transcriptDialog = Confirm"
      and "remote env (ApiRequestFileTranscript fileId agentId chatId) = Inr t"
      and "remote env (ApiUpdateItem ''files'' fileId (JObj [(''transcript'', t)])) = Inl e"
  shows "requestFileTranscript env fileId agentId chatId [] =
     (Inl e, [Logger LogInfo (template [''Requesting transcript for file: '', fileId]),
              Call (ApiFetchItem ''files'' (Some fileId)),
              OpenDialog transcriptDialog,
              Call (ApiRequestFileTranscript fileId agentId chatId),
              Call (ApiUpdateItem ''files'' fileId (JObj [(''transcript'', t)])),
              AddNotification (template [''Error updating '', ''files'']) Error None None,
              AddNotification ''Error generating new transcript'' Error None None])"
  using assms by (simp add: transcript_defs prog_defs facade_defs)

lemma transcript_regenerated:
  assumes "remote env (ApiFetchItem ''files'' (Some fileId)) = Inr fileData"
      and "read_transcript fileData = Inr existing" and "truthy existing"
      and "dialog env transcriptDialog = Confirm"
      and "remote env (ApiRequestFileTranscript fileId agentId chatId) = Inr t"
      and "remote env (ApiUpdateItem ''files'' fileId (JObj [(''transcript'', t)])) = Inr u"
  shows "requestFileTranscript env fileId agentId chatId [] =
     (Inr t, [Logger LogInfo (template [''Requesting transcript for file: '', fileId]),
              Call (ApiFetchItem ''files'' (Some fileId)),
              OpenDialog transcriptDialog,
              Call (ApiRequestFileTranscript fileId agentId chatId),
              Call (ApiUpdateItem ''files'' fileId (JObj [(''transcript'', t)])),
              AddNotification (template [''files'', '' updated successfully'']) Success (Some 5000)
                (Some \<lparr>label = ''View'',
                       onClick = SelectCardItem (collectionNameToElementString env ''files'')
                                   (GivenId fileId) None\<rparr>),
              Emit (template [''updated'', '':'', ''files'']) (Some u),
              AddNotification ''New transcript generated successfully'' Success None None])"
  using assms by (simp add: transcript_defs prog_defs facade_defs)

lemma transcript_generate_rejected:
  assumes "remote env (ApiFetchItem ''files'' (Some fileId)) = Inr fileData"
      and "read_transcript fileData = Inr existing" and "\<not> truthy existing"
      and "remote env (ApiRequestFileTranscript fileId agentId chatId) = Inl e"
  shows "requestFileTranscript env fileId agentId chatId [] =
     (Inl e, [Logger LogInfo (template [''Requesting transcript for file: '', fileId]),
              Call (ApiFetchItem ''files'' (Some fileId)),
              Call (ApiRequestFileTranscript fileId agentId chatId),
              AddNotification ''Error requesting transcript'' Error None None])"
  using assms by (simp add: transcript_defs prog_defs facade_defs)

lemma transcript_generate_not_persisted:
  assumes "remote env (ApiFetchItem ''files'' (Some fileId)) = Inr fileData"
      and "read_transcript fileData = Inr existing" and "\<not> truthy existing"
      and "remote env (ApiRequestFileTranscript fileId agentId chatId) = Inr t"
      and "remote env (ApiUpdateItem ''files'' fileId (JObj [(''transcript'', t)])) = Inl e"
  shows "requestFileTranscript env fileId agentId chatId [] =
     (Inl e, [Logger LogInfo (template [''Requesting transcript for file: '', fileId]),
              Call (ApiFetchItem ''files'' (Some fileId)),
              Call (ApiRequestFileTranscript fileId agentId chatId),
              Call (ApiUpdateItem ''files'' fileId (JObj [(''transcript'', t)])),
              AddNotification (template [''Error updating '', ''files'']) Error None None,
              AddNotification ''Error requesting transcript'' Error None None])"
  using assms by (simp add: transcript_defs prog_defs facade_defs)

lemma transcript_generated:
  assumes "remote env (ApiFetchItem ''files'' (Some fileId)) = Inr fileData"
      and "read_transcript fileData = Inr existing" and "\<not> truthy existing"
      and "remote env (ApiRequestFileTranscript fileId agentId chatId) = Inr t"
      and "remote env (ApiUpdateItem ''files'' fileId (JObj [(''transcript'', t)])) = Inr u"
  shows "requestFileTranscript env fileId agentId chatId [] =
     (Inr t, [Logger LogInfo (template [''Requesting transcript for file: '', fileId]),
              Call (ApiFetchItem ''files'' (Some fileId)),
              Call (ApiRequestFileTranscript fileId agentId chatId),
              Call (ApiUpdateItem ''files'' fileId (JObj [(''transcript'', t)])),
              AddNotification (template [''files'', '' updated successfully'']) Success (Some 5000)
                (Some \<lparr>label = ''View'',
                       onClick = SelectCardItem (collectionNameToElementString env ''files'')
                                   (GivenId fileId) None\<rparr>),
              Emit (template [''updated'', '':'', ''files'']) (Some u),
              AddNotification ''Transcript generated successfully'' Success None None])"
  using assms by (simp add: transcript_defs prog_defs facade_defs)

lemmas transcript_paths = transcript_fetch_rejected transcript_unreadable transcript_use_existing
  transcript_regenerate_rejected transcript_regenerate_not_persisted transcript_regenerated
  transcript_generate_rejected transcript_generate_not_persisted transcript_generated

lemma transcript_error_notifications:
  assumes "outcome (requestFileTranscript env fileId agentId chatId) = Inl e"
  shows "length (filter (is_notification Error)
                  (effects (requestFileTranscript env fileId agentId chatId))) =
         (if \<exists>d. ApiUpdateItem ''files'' fileId d
                    \<in> set (calls (effects (requestFileTranscript env fileId agentId chatId)))
          then 2 else 1)"
proof (cases "remote env (ApiFetchItem ''files'' (Some fileId))")
  case (Inl e')
  then show ?thesis by (simp add: outcome_def effects_def transcript_fetch_rejected)
next
  case fetched: (Inr fileData)
  show ?thesis
  proof (cases "read_transcript fileData")
    case (Inl e')
    with fetched show ?thesis by (simp add: outcome_def effects_def transcript_unreadable)
  next
    case read: (Inr existing)
    show ?thesis
    proof (cases "remote env (ApiRequestFileTranscript fileId agentId chatId)")
      case rejected: (Inl e')
      show ?thesis
      proof (cases "truthy existing")
        case True
        with assms fetched read rejected show ?thesis
          by (cases "dialog env transcriptDialog")
             (simp_all add: outcome_def effects_def transcript_paths)
      next
        case False
        with assms fetched read rejected show ?thesis
          by (simp add: outcome_def effects_def transcript_paths)
      qed
    next
      case generated: (Inr t)
      show ?thesis
      proof (cases "truthy existing")
        case True
        with assms fetched read generated show ?thesis
          by (cases "dialog env transcriptDialog";
              cases "remote env (ApiUpdateItem ''files'' fileId (JObj [(''transcript'', t)]))")
             (simp_all add: outcome_def effects_def transcript_paths)
      next
        case False
        with assms fetched read generated show ?thesis
          by (cases "remote env (ApiUpdateItem ''files'' fileId (JObj [(''transcript'', t)]))")
             (simp_all add: outcome_def effects_def transcript_paths)
      qed
    qed
  qed
qed


lemma transcript_reraises:
  assumes "c \<in> set (calls (effects (requestFileTranscript env fileId agentId chatId)))"
      and "remote env c = Inl e"
  shows "outcome (requestFileTranscript env fileId agentId chatId) = Inl e"
proof (cases "remote env (ApiFetchItem ''files'' (Some fileId))")
  case (Inl e')
  with assms show ?thesis by (auto simp add: outcome_def effects_def transcript_fetch_rejected)
next
  case fetched: (Inr fileData)
  show ?thesis
  proof (cases "read_transcript fileData")
    case (Inl e')
    with assms fetched show ?thesis by (auto simp add: outcome_def effects_def transcript_unreadable)
  next
    case read: (Inr existing)
    show ?thesis
    proof (cases "remote env (ApiRequestFileTranscript fileId agentId chatId)")
      case rejected: (Inl e')
      show ?thesis
      proof (cases "truthy existing")
        case True
        with assms fetched read rejected show ?thesis
          by (cases "dialog env transcriptDialog")
             (auto simp add: outcome_def effects_def transcript_paths)
      next
        case False
        with assms fetched read rejected show ?thesis
          by (auto simp add: outcome_def effects_def transcript_paths)
      qed
    next
      case generated: (Inr t)
      show ?thesis
      proof (cases "truthy existing")
        case True
        with assms fetched read generated show ?thesis
          by (cases "dialog env transcriptDialog";
              cases "remote env (ApiUpdateItem ''files'' fileId (JObj [(''transcript'', t)]))")
             (auto simp add: outcome_def effects_def transcript_paths)
      next
        case False
        with assms fetched read generated show ?thesis
          by (cases "remote env (ApiUpdateItem ''files'' fileId (JObj [(''transcript'', t)]))")
             (auto simp add: outcome_def effects_def transcript_paths)
      qed
    qed
  qed
qed

subsection \<open>The wrappers\<close>

lemmas op_defs = createItem_def updateItem_def executeTask_def generateChatResponse_def
  sendMessage_def uploadFileContentReference_def updateFile_def updateMessageInChat_def
  purgeAndReinitializeDatabase_def deleteItem_def

lemmas example_defs = env_of_def backend_ok_def backend_down_def backend_update_down_def
  backend_with_transcript_def deletionDialog_def transcriptDialog_def template_def

lemma createItem_resolved:
  assumes "remote env (ApiCreateItem collectionName itemData) = Inr createdItem"
  shows "createItem env collectionName itemData [] =
     (Inr createdItem,
      [Call (ApiCreateItem collectionName itemData),
       Logger Debug (template [''Created '', collectionName, '':'']),
       AddNotification (template [collectionName, '' created successfully'']) Success (Some 5000)
         (Some \<lparr>label = ''View'',
                onClick = SelectCardItem (collectionNameToElementString env collectionName)
                            (IdOf createdItem) None\<rparr>),
       Emit (template [''created'', '':'', collectionName]) (Some createdItem)])"
  using assms by (simp add: createItem_def prog_defs facade_defs)

lemma updateItem_resolved:
  assumes "remote env (ApiUpdateItem collectionName itemId itemData) = Inr updatedItem"
  shows "updateItem env collectionName itemId itemData [] =
     (Inr updatedItem,
      [Call (ApiUpdateItem collectionName itemId itemData),
       AddNotification (template [collectionName, '' updated successfully'']) Success (Some 5000)
         (Some \<lparr>label = ''View'',
                onClick = SelectCardItem (collectionNameToElementString env collectionName)
                            (GivenId itemId) None\<rparr>),
       Emit (template [''updated'', '':'', collectionName]) (Some updatedItem)])"
  using assms by (simp add: updateItem_def prog_defs facade_defs)

lemma facade_notified_before_published:
  assumes "\<not> is_requestFileTranscript op"
  shows "notified_before_published env (effects (facade env op))"
  using assms
  by (cases op)
     (simp_all add: notified_before_published_def resolved_def op_defs prog_defs facade_defs
        split: sum.splits choice.splits)

lemma wrapped_failure:
  assumes "wrapped op" and "c \<in> set (calls (effects (facade env op)))" and "remote env c = Inl e"
  shows "outcome (facade env op) = Inl e \<and>
         length (filter (is_notification Error) (effects (facade env op))) = 1"
  using assms
  by (cases op)
     (auto simp add: op_defs prog_defs facade_defs split: sum.splits if_splits)

subsection \<open>The claims about the facade\<close>

text \<open>
  C1, as stated, fails: \<^verbatim>\<open>requestFileTranscript\<close> on a file without transcript, with a
  backend that answers every call, issues its success notification after the nested
  \<^verbatim>\<open>updateItem\<close> has published \<^verbatim>\<open>updated:files\<close>.
\<close>

theorem transcript_notified_after_published:
  "effects (facade (env_of backend_ok Confirm) (RequestFileTranscript ''f1'' None None)) =
     [Logger LogInfo ''Requesting transcript for file: f1'',
      Call (ApiFetchItem ''files'' (Some ''f1'')),
      Call (ApiRequestFileTranscript ''f1'' None None),
      Call (ApiUpdateItem ''files'' ''f1''
              (JObj [(''transcript'', JObj [(''role'', JStr ''assistant'')])])),
      AddNotification ''files updated successfully'' Success (Some 5000)
        (Some \<lparr>label = ''View'', onClick = SelectCardItem ''files'' (GivenId ''f1'') None\<rparr>),
      Emit ''updated:files'' (Some (JObj [(''_id'', JStr ''x1'')])),
      AddNotification ''Transcript generated successfully'' Success None None] \<and>
   \<not> notified_before_published (env_of backend_ok Confirm)
       (effects (facade (env_of backend_ok Confirm) (RequestFileTranscript ''f1'' None None)))"
  by (simp add: notified_before_published_def transcript_defs prog_defs facade_defs example_defs)

text \<open>
  C1, amended: for every operation of the facade other than \<^verbatim>\<open>requestFileTranscript\<close>,
  whatever the backend and the user do, every success notification is issued after a
  remote call of the operation, with every call made until then resolved, and no success
  notification follows a published event. A \<^verbatim>\<open>createItem\<close> or \<^verbatim>\<open>updateItem\<close> whose remote
  call resolves does exactly this, in this order: the call, one success notification, one
  event, and resolves with the item. \<^verbatim>\<open>requestFileTranscript\<close>, when it generates a
  transcript (for a file that has none, or after the answer "Generate New"), issues its
  own success notification last, after the notification and the event of the nested
  \<^verbatim>\<open>updateItem\<close>.
\<close>

theorem notification_precedes_event:
  "(\<not> is_requestFileTranscript op \<longrightarrow>
      notified_before_published env (effects (facade env op))) \<and>
   (remote env (ApiCreateItem collectionName itemData) = Inr createdItem \<longrightarrow>
      outcome (createItem env collectionName itemData) = Inr createdItem \<and>
      effects (createItem env collectionName itemData) =
        [Call (ApiCreateItem collectionName itemData),
         Logger Debug (template [''Created '', collectionName, '':'']),
         AddNotification (template [collectionName, '' created successfully'']) Success (Some 5000)
           (Some \<lparr>label = ''View'',
                  onClick = SelectCardItem (collectionNameToElementString env collectionName)
                              (IdOf createdItem) None\<rparr>),
         Emit (template [''created'', '':'', collectionName]) (Some createdItem)]) \<and>
   (remote env (ApiUpdateItem collectionName itemId itemData) = Inr updatedItem \<longrightarrow>
      outcome (updateItem env collectionName itemId itemData) = Inr updatedItem \<and>
      effects (updateItem env collectionName itemId itemData) =
        [Call (ApiUpdateItem collectionName itemId itemData),
         AddNotification (template [collectionName, '' updated successfully'']) Success (Some 5000)
           (Some \<lparr>label = ''View'',
                  onClick = SelectCardItem (collectionNameToElementString env collectionName)
                              (GivenId itemId) None\<rparr>),
         Emit (template [''updated'', '':'', collectionName]) (Some updatedItem)]) \<and>
   (remote env (ApiFetchItem ''files'' (Some fileId)) = Inr fileData \<and>
    read_transcript fileData = Inr existing \<and> \<not> truthy existing \<and>
    remote env (ApiRequestFileTranscript fileId agentId chatId) = Inr t \<and>
    remote env (ApiUpdateItem ''files'' fileId (JObj [(''transcript'', t)])) = Inr u \<longrightarrow>
      effects (requestFileTranscript env fileId agentId chatId) =
        [Logger LogInfo (template [''Requesting transcript for file: '', fileId]),
         Call (ApiFetchItem ''files'' (Some fileId)),
         Call (ApiRequestFileTranscript fileId agentId chatId),
         Call (ApiUpdateItem ''files'' fileId (JObj [(''transcript'', t)])),
         AddNotification (template [''files'', '' updated successfully'']) Success (Some 5000)
           (Some \<lparr>label = ''View'',
                  onClick = SelectCardItem (collectionNameToElementString env ''files'')
                              (GivenId fileId) None\<rparr>),
         Emit (template [''updated'', '':'', ''files'']) (Some u),
         AddNotification ''Transcript generated successfully'' Success None None]) \<and>
   (remote env (ApiFetchItem ''files'' (Some fileId)) = Inr fileData \<and>
    read_transcript fileData = Inr existing \<and> truthy existing \<and>
    dialog env transcriptDialog = Confirm \<and>
    remote env (ApiRequestFileTranscript fileId agentId chatId) = Inr t \<and>
    remote env (ApiUpdateItem ''files'' fileId (JObj [(''transcript'', t)])) = Inr u \<longrightarrow>
      effects (requestFileTranscript env fileId agentId chatId) =
        [Logger LogInfo (template [''Requesting transcript for file: '', fileId]),
         Call (ApiFetchItem ''files'' (Some fileId)),
         OpenDialog transcriptDialog,
         Call (ApiRequestFileTranscript fileId agentId chatId),
         Call (ApiUpdateItem ''files'' fileId (JObj [(''transcript'', t)])),
         AddNotification (template [''files'', '' updated successfully'']) Success (Some 5000)
           (Some \<lparr>label = ''View'',
                  onClick = SelectCardItem (collectionNameToElementString env ''files'')
                              (GivenId fileId) None\<rparr>),
         Emit (template [''updated'', '':'', ''files'']) (Some u),
         AddNotification ''New transcript generated successfully'' Success None None])"
proof (intro conjI impI)
  assume "\<not> is_requestFileTranscript op"
  then show "notified_before_published env (effects (facade env op))"
    by (rule facade_notified_before_published)
next
  assume "remote env (ApiCreateItem collectionName itemData) = Inr createdItem"
  then show "outcome (createItem env collectionName itemData) = Inr createdItem"
    by (simp add: outcome_def createItem_resolved)
next
  assume "remote env (ApiCreateItem collectionName itemData) = Inr createdItem"
  then show "effects (createItem env collectionName itemData) =
        [Call (ApiCreateItem collectionName itemData),
         Logger Debug (template [''Created '', collectionName, '':'']),
         AddNotification (template [collectionName, '' created successfully'']) Success (Some 5000)
           (Some \<lparr>label = ''View'',
                  onClick = SelectCardItem (collectionNameToElementString env collectionName)
                              (IdOf createdItem) None\<rparr>),
         Emit (template [''created'', '':'', collectionName]) (Some createdItem)]"
    by (simp add: effects_def createItem_resolved)
next
  assume "remote env (ApiUpdateItem collectionName itemId itemData) = Inr updatedItem"
  then show "outcome (updateItem env collectionName itemId itemData) = Inr updatedItem"
    by (simp add: outcome_def updateItem_resolved)
next
  assume "remote env (ApiUpdateItem collectionName itemId itemData) = Inr updatedItem"
  then show "effects (updateItem env collectionName itemId itemData) =
        [Call (ApiUpdateItem collectionName itemId itemData),
         AddNotification (template [collectionName, '' updated successfully'']) Success (Some 5000)
           (Some \<lparr>label = ''View'',
                  onClick = SelectCardItem (collectionNameToElementString env collectionName)
                              (GivenId itemId) None\<rparr>),
         Emit (template [''updated'', '':'', collectionName]) (Some updatedItem)]"
    by (simp add: effects_def updateItem_resolved)
next
  assume "remote env (ApiFetchItem ''files'' (Some fileId)) = Inr fileData \<and>
    read_transcript fileData = Inr existing \<and> \<not> truthy existing \<and>
    remote env (ApiRequestFileTranscript fileId agentId chatId) = Inr t \<and>
    remote env (ApiUpdateItem ''files'' fileId (JObj [(''transcript'', t)])) = Inr u"
  then show "effects (requestFileTranscript env fileId agentId chatId) =
        [Logger LogInfo (template [''Requesting transcript for file: '', fileId]),
         Call (ApiFetchItem ''files'' (Some fileId)),
         Call (ApiRequestFileTranscript fileId agentId chatId),
         Call (ApiUpdateItem ''files'' fileId (JObj [(''transcript'', t)])),
         AddNotification (template [''files'', '' updated successfully'']) Success (Some 5000)
           (Some \<lparr>label = ''View'',
                  onClick = SelectCardItem (collectionNameToElementString env ''files'')
                              (GivenId fileId) None\<rparr>),
         Emit (template [''updated'', '':'', ''files'']) (Some u),
         AddNotification ''Transcript generated successfully'' Success None None]"
    using transcript_generated [of env fileId fileData existing agentId chatId t u]
    by (simp add: effects_def)
next
  assume "remote env (ApiFetchItem ''files'' (Some fileId)) = Inr fileData \<and>
    read_transcript fileData = Inr existing \<and> truthy existing \<and>
    dialog env transcriptDialog = Confirm \<and>
    remote env (ApiRequestFileTranscript fileId agentId chatId) = Inr t \<and>
    remote env (ApiUpdateItem ''files'' fileId (JObj [(''transcript'', t)])) = Inr u"
  then show "effects (requestFileTranscript env fileId agentId chatId) =
        [Logger LogInfo (template [''Requesting transcript for file: '', fileId]),
         Call (ApiFetchItem ''files'' (Some fileId)),
         OpenDialog transcriptDialog,
         Call (ApiRequestFileTranscript fileId agentId chatId),
         Call (ApiUpdateItem ''files'' fileId (JObj [(''transcript'', t)])),
         AddNotification (template [''files'', '' updated successfully'']) Success (Some 5000)
           (Some \<lparr>label = ''View'',
                  onClick = SelectCardItem (collectionNameToElementString env ''files'')
                              (GivenId fileId) None\<rparr>),
         Emit (template [''updated'', '':'', ''files'']) (Some u),
         AddNotification ''New transcript generated successfully'' Success None None]"
    using transcript_regenerated [of env fileId fileData existing agentId chatId t u]
    by (simp add: effects_def)
qed

text \<open>
  C1, amended, on a backend that answers every call: a message sent, an item created and
  updated, and a transcript generated for a file without one and for a file with one.
\<close>

theorem notification_precedes_event_witness:
  "\<not> is_requestFileTranscript (SendMessage ''c1'' (JStr ''hello'')) \<and>
   notified_before_published (env_of backend_ok Confirm)
     (effects (facade (env_of backend_ok Confirm) (SendMessage ''c1'' (JStr ''hello'')))) \<and>
   remote (env_of backend_ok Confirm) (ApiCreateItem ''chats'' JNull) = Inr (JObj [(''_id'', JStr ''x1'')]) \<and>
   effects (createItem (env_of backend_ok Confirm) ''chats'' JNull) =
     [Call (ApiCreateItem ''chats'' JNull),
      Logger Debug ''Created chats:'',
      AddNotification ''chats created successfully'' Success (Some 5000)
        (Some \<lparr>label = ''View'',
               onClick = SelectCardItem ''chats'' (IdOf (JObj [(''_id'', JStr ''x1'')])) None\<rparr>),
      Emit ''created:chats'' (Some (JObj [(''_id'', JStr ''x1'')]))] \<and>
   remote (env_of backend_ok Confirm) (ApiUpdateItem ''chats'' ''c1'' JNull) = Inr (JObj [(''_id'', JStr ''x1'')]) \<and>
   effects (updateItem (env_of backend_ok Confirm) ''chats'' ''c1'' JNull) =
     [Call (ApiUpdateItem ''chats'' ''c1'' JNull),
      AddNotification ''chats updated successfully'' Success (Some 5000)
        (Some \<lparr>label = ''View'', onClick = SelectCardItem ''chats'' (GivenId ''c1'') None\<rparr>),
      Emit ''updated:chats'' (Some (JObj [(''_id'', JStr ''x1'')]))] \<and>
   remote (env_of backend_ok Confirm) (ApiFetchItem ''files'' (Some ''f1''))
     = Inr (JObj [(''_id'', JStr ''f1'')]) \<and>
   read_transcript (JObj [(''_id'', JStr ''f1'')]) = Inr JUndefined \<and> \<not> truthy JUndefined \<and>
   effects (requestFileTranscript (env_of backend_ok Confirm) ''f1'' None None) =
     [Logger LogInfo ''Requesting transcript for file: f1'',
      Call (ApiFetchItem ''files'' (Some ''f1'')),
      Call (ApiRequestFileTranscript ''f1'' None None),
      Call (ApiUpdateItem ''files'' ''f1''
              (JObj [(''transcript'', JObj [(''role'', JStr ''assistant'')])])),
      AddNotification ''files updated successfully'' Success (Some 5000)
        (Some \<lparr>label = ''View'', onClick = SelectCardItem ''files'' (GivenId ''f1'') None\<rparr>),
      Emit ''updated:files'' (Some (JObj [(''_id'', JStr ''x1'')])),
      AddNotification ''Transcript generated successfully'' Success None None] \<and>
   truthy (JObj [(''role'', JStr ''tool'')]) \<and>
   dialog (env_of backend_with_transcript Confirm) transcriptDialog = Confirm \<and>
   effects (requestFileTranscript (env_of backend_with_transcript Confirm) ''f1'' None None) =
     [Logger LogInfo ''Requesting transcript for file: f1'',
      Call (ApiFetchItem ''files'' (Some ''f1'')),
      OpenDialog transcriptDialog,
      Call (ApiRequestFileTranscript ''f1'' None None),
      Call (ApiUpdateItem ''files'' ''f1''
              (JObj [(''transcript'', JObj [(''role'', JStr ''assistant'')])])),
      AddNotification ''files updated successfully'' Success (Some 5000)
        (Some \<lparr>label = ''View'', onClick = SelectCardItem ''files'' (GivenId ''f1'') None\<rparr>),
      Emit ''updated:files'' (Some (JObj [(''_id'', JStr ''x1'')])),
      AddNotification ''New transcript generated successfully'' Success None None]"
  using notification_precedes_event
          [of "SendMessage ''c1'' (JStr ''hello'')" "env_of backend_ok Confirm"
              "''chats''" JNull "JObj [(''_id'', JStr ''x1'')]" "''c1''" "JObj [(''_id'', JStr ''x1'')]"
              "''f1''" "JObj [(''_id'', JStr ''f1'')]" JUndefined None None
              "JObj [(''role'', JStr ''assistant'')]" "JObj [(''_id'', JStr ''x1'')]"]
        notification_precedes_event
          [of "SendMessage ''c1'' (JStr ''hello'')" "env_of backend_with_transcript Confirm"
              "''chats''" JNull "JObj [(''_id'', JStr ''x1'')]" "''c1''" "JObj [(''_id'', JStr ''x1'')]"
              "''f1''"
              "JObj [(''_id'', JStr ''f1''), (''transcript'', JObj [(''role'', JStr ''tool'')])]"
              "JObj [(''role'', JStr ''tool'')]" None None
              "JObj [(''role'', JStr ''assistant'')]" "JObj [(''_id'', JStr ''x1'')]"]
  by (simp add: example_defs)

text \<open>
  C2: \<^verbatim>\<open>deleteItem\<close> always resolves, never rejects, and resolves with \<^verbatim>\<open>true\<close> exactly
  when the user confirms the dialog and the remote delete call resolves. On confirmation
  it issues the delete call, its only remote call, and then shows the success notification
  and publishes \<^verbatim>\<open>deleted:<collection>\<close>, or, when the call is rejected, shows the error
  notification and logs the error. On cancellation it opens the dialog, shows the
  informational notification and issues no remote call.
\<close>

theorem deleteItem_true_iff_confirmed_and_deleted:
  "outcome (deleteItem env collectionName itemId) =
     Inr (dialog env (deletionDialog env collectionName) = Confirm \<and>
          (\<exists>v. remote env (ApiDeleteItem collectionName itemId) = Inr v)) \<and>
   (dialog env (deletionDialog env collectionName) = Cancel \<longrightarrow>
      effects (deleteItem env collectionName itemId) =
        [OpenDialog (deletionDialog env collectionName),
         AddNotification (template [''Deletion of '', collectionName, '' cancelled'']) Info None None] \<and>
      calls (effects (deleteItem env collectionName itemId)) = []) \<and>
   (dialog env (deletionDialog env collectionName) = Confirm \<longrightarrow>
      calls (effects (deleteItem env collectionName itemId)) = [ApiDeleteItem collectionName itemId]) \<and>
   (dialog env (deletionDialog env collectionName) = Confirm \<and>
    remote env (ApiDeleteItem collectionName itemId) = Inr v \<longrightarrow>
      effects (deleteItem env collectionName itemId) =
        [OpenDialog (deletionDialog env collectionName),
         Call (ApiDeleteItem collectionName itemId),
         AddNotification
           (template [collectionNameToElementString env collectionName, '' deleted successfully''])
           Success None None,
         Emit (template [''deleted'', '':'', collectionName]) (Some (JObj [(''_id'', JStr itemId)]))]) \<and>
   (dialog env (deletionDialog env collectionName) = Confirm \<and>
    remote env (ApiDeleteItem collectionName itemId) = Inl e \<longrightarrow>
      effects (deleteItem env collectionName itemId) =
        [OpenDialog (deletionDialog env collectionName),
         Call (ApiDeleteItem collectionName itemId),
         AddNotification (template [''Error deleting '', collectionName]) Error None None,
         Logger LogError (template [''Error deleting item from '', collectionName, '':''])])"
  by (cases "dialog env (deletionDialog env collectionName)";
      cases "remote env (ApiDeleteItem collectionName itemId)")
     (simp_all add: deleteItem_def prog_defs facade_defs)

text \<open>
  C2 on a cancelled deletion, on a confirmed deletion that the backend accepts, and on a
  confirmed deletion with the backend down.
\<close>

theorem deleteItem_true_iff_confirmed_and_deleted_witness:
  "dialog (env_of backend_ok Cancel) (deletionDialog (env_of backend_ok Cancel) ''chats'') = Cancel \<and>
   outcome (deleteItem (env_of backend_ok Cancel) ''chats'' ''c1'') = Inr False \<and>
   calls (effects (deleteItem (env_of backend_ok Cancel) ''chats'' ''c1'')) = [] \<and>
   dialog (env_of backend_ok Confirm) (deletionDialog (env_of backend_ok Confirm) ''chats'') = Confirm \<and>
   remote (env_of backend_ok Confirm) (ApiDeleteItem ''chats'' ''c1'') = Inr (JObj [(''_id'', JStr ''x1'')]) \<and>
   outcome (deleteItem (env_of backend_ok Confirm) ''chats'' ''c1'') = Inr True \<and>
   effects (deleteItem (env_of backend_ok Confirm) ''chats'' ''c1'') =
     [OpenDialog (deletionDialog (env_of backend_ok Confirm) ''chats''),
      Call (ApiDeleteItem ''chats'' ''c1''),
      AddNotification ''chats deleted successfully'' Success None None,
      Emit ''deleted:chats'' (Some (JObj [(''_id'', JStr ''c1'')]))] \<and>
   dialog (env_of backend_down Confirm) (deletionDialog (env_of backend_down Confirm) ''chats'') = Confirm \<and>
   remote (env_of backend_down Confirm) (ApiDeleteItem ''chats'' ''c1'') = Inl (RemoteFailure ''503'') \<and>
   outcome (deleteItem (env_of backend_down Confirm) ''chats'' ''c1'') = Inr False \<and>
   calls (effects (deleteItem (env_of backend_down Confirm) ''chats'' ''c1''))
     = [ApiDeleteItem ''chats'' ''c1''] \<and>
   effects (deleteItem (env_of backend_down Confirm) ''chats'' ''c1'') =
     [OpenDialog (deletionDialog (env_of backend_down Confirm) ''chats''),
      Call (ApiDeleteItem ''chats'' ''c1''),
      AddNotification ''Error deleting chats'' Error None None,
      Logger LogError ''Error deleting item from chats:'']"
  using deleteItem_true_iff_confirmed_and_deleted [of "env_of backend_ok Cancel" "''chats''" "''c1''"]
        deleteItem_true_iff_confirmed_and_deleted
          [of "env_of backend_ok Confirm" "''chats''" "''c1''" "JObj [(''_id'', JStr ''x1'')]"]
        deleteItem_true_iff_confirmed_and_deleted
          [of "env_of backend_down Confirm" "''chats''" "''c1''" _ "RemoteFailure ''503''"]
  by (simp add: env_of_def backend_ok_def backend_down_def template_def)

text \<open>
  C3, as stated, fails: with the backend down \<^verbatim>\<open>fetchItem\<close> rejects and shows no
  notification; when only the update endpoint is down \<^verbatim>\<open>requestFileTranscript\<close> rejects
  after two error notifications.
\<close>

theorem failure_without_single_notification:
  "outcome (facade (env_of backend_down Confirm) (FetchItem ''chats'' None)) = Inl (RemoteFailure ''503'') \<and>
   filter (is_notification Error)
     (effects (facade (env_of backend_down Confirm) (FetchItem ''chats'' None))) = [] \<and>
   outcome (facade (env_of backend_update_down Confirm) (RequestFileTranscript ''f1'' None None))
     = Inl (RemoteFailure ''503'') \<and>
   length (filter (is_notification Error)
     (effects (facade (env_of backend_update_down Confirm) (RequestFileTranscript ''f1'' None None)))) = 2"
  by (simp add: transcript_defs prog_defs facade_defs example_defs)

text \<open>
  C3, amended: when a remote call issued by one of the wrappers (every operation except
  \<^verbatim>\<open>fetchItem\<close>, \<^verbatim>\<open>retrieveFile\<close>, \<^verbatim>\<open>deleteItem\<close> and \<^verbatim>\<open>requestFileTranscript\<close>) is
  rejected, the operation rejects with that failure and has shown exactly one error
  notification. \<^verbatim>\<open>fetchItem\<close> and \<^verbatim>\<open>retrieveFile\<close> settle as the remote call does and
  do nothing else. \<^verbatim>\<open>requestFileTranscript\<close> rejects with the failure of the call that
  failed, after one error notification, or two when the nested \<^verbatim>\<open>updateItem\<close> was reached.
\<close>

theorem failure_notified_and_reraised:
  "(wrapped op \<and> c \<in> set (calls (effects (facade env op))) \<and> remote env c = Inl e \<longrightarrow>
      outcome (facade env op) = Inl e \<and>
      length (filter (is_notification Error) (effects (facade env op))) = 1) \<and>
   outcome (facade env (FetchItem collectionName itemId)) = remote env (ApiFetchItem collectionName itemId) \<and>
   effects (facade env (FetchItem collectionName itemId)) = [Call (ApiFetchItem collectionName itemId)] \<and>
   outcome (facade env (RetrieveFile args)) = remote env (ApiRetrieveFile args) \<and>
   effects (facade env (RetrieveFile args)) = [Call (ApiRetrieveFile args)] \<and>
   (c \<in> set (calls (effects (requestFileTranscript env fileId agentId chatId))) \<and> remote env c = Inl e \<longrightarrow>
      outcome (requestFileTranscript env fileId agentId chatId) = Inl e \<and>
      length (filter (is_notification Error) (effects (requestFileTranscript env fileId agentId chatId))) =
        (if \<exists>d. ApiUpdateItem ''files'' fileId d
                   \<in> set (calls (effects (requestFileTranscript env fileId agentId chatId)))
         then 2 else 1))"
proof (intro conjI impI)
  assume "wrapped op \<and> c \<in> set (calls (effects (facade env op))) \<and> remote env c = Inl e"
  then have "outcome (facade env op) = Inl e \<and>
      length (filter (is_notification Error) (effects (facade env op))) = 1"
    using wrapped_failure [of op c env e] by simp
  then show "outcome (facade env op) = Inl e"
    and "length (filter (is_notification Error) (effects (facade env op))) = 1"
    by simp_all
next
  show "outcome (facade env (FetchItem collectionName itemId)) = remote env (ApiFetchItem collectionName itemId)"
    and "effects (facade env (FetchItem collectionName itemId)) = [Call (ApiFetchItem collectionName itemId)]"
    and "outcome (facade env (RetrieveFile args)) = remote env (ApiRetrieveFile args)"
    and "effects (facade env (RetrieveFile args)) = [Call (ApiRetrieveFile args)]"
    by (simp_all add: facade_defs)
next
  assume *: "c \<in> set (calls (effects (requestFileTranscript env fileId agentId chatId))) \<and> remote env c = Inl e"
  then show **: "outcome (requestFileTranscript env fileId agentId chatId) = Inl e"
    using transcript_reraises [of c env fileId agentId chatId e] by simp
  show "length (filter (is_notification Error) (effects (requestFileTranscript env fileId agentId chatId))) =
        (if \<exists>d. ApiUpdateItem ''files'' fileId d
                   \<in> set (calls (effects (requestFileTranscript env fileId agentId chatId)))
         then 2 else 1)"
    using ** by (rule transcript_error_notifications)
qed

text \<open>C3, amended, with the backend down and with only the update endpoint down.\<close>

theorem failure_notified_and_reraised_witness:
  "wrapped (CreateItem ''chats'' JNull) \<and>
   ApiCreateItem ''chats'' JNull
     \<in> set (calls (effects (facade (env_of backend_down Confirm) (CreateItem ''chats'' JNull)))) \<and>
   remote (env_of backend_down Confirm) (ApiCreateItem ''chats'' JNull) = Inl (RemoteFailure ''503'') \<and>
   outcome (facade (env_of backend_down Confirm) (CreateItem ''chats'' JNull)) = Inl (RemoteFailure ''503'') \<and>
   length (filter (is_notification Error)
     (effects (facade (env_of backend_down Confirm) (CreateItem ''chats'' JNull)))) = 1 \<and>
   ApiUpdateItem ''files'' ''f1'' (JObj [(''transcript'', JObj [(''role'', JStr ''assistant'')])])
     \<in> set (calls (effects (requestFileTranscript (env_of backend_update_down Confirm) ''f1'' None None))) \<and>
   outcome (requestFileTranscript (env_of backend_update_down Confirm) ''f1'' None None)
     = Inl (RemoteFailure ''503'')"
  using failure_notified_and_reraised
          [of "CreateItem ''chats'' JNull" "ApiCreateItem ''chats'' JNull" "env_of backend_down Confirm"
              "RemoteFailure ''503''"]
        failure_notified_and_reraised
          [of _ "ApiUpdateItem ''files'' ''f1'' (JObj [(''transcript'', JObj [(''role'', JStr ''assistant'')])])"
              "env_of backend_update_down Confirm" "RemoteFailure ''503''" _ _ _ "''f1''" None None]
  by (simp add: createItem_def transcript_defs prog_defs facade_defs example_defs)

text \<open>
  C4: let the file be fetched and its transcript read. With a transcript and the answer
  "Use Existing" the operation resolves with the existing transcript and the fetch is its
  only remote call; with a transcript, the transcription endpoint is called exactly when
  the answer is "Generate New"; without one it is called and no dialog is opened.
  Whenever the endpoint resolves with a new transcript, that transcript is sent to
  \<^verbatim>\<open>updateItem\<close> for the file, and when this resolves too the operation resolves with
  the new transcript.
\<close>

theorem requestFileTranscript_regenerates_only_on_request:
  assumes "remote env (ApiFetchItem ''files'' (Some fileId)) = Inr fileData"
      and "read_transcript fileData = Inr existing"
  shows
   "(truthy existing \<and> dialog env transcriptDialog = Cancel \<longrightarrow>
       outcome (requestFileTranscript env fileId agentId chatId) = Inr existing \<and>
       calls (effects (requestFileTranscript env fileId agentId chatId))
         = [ApiFetchItem ''files'' (Some fileId)]) \<and>
    (truthy existing \<longrightarrow>
       (ApiRequestFileTranscript fileId agentId chatId
          \<in> set (calls (effects (requestFileTranscript env fileId agentId chatId)))
        \<longleftrightarrow> dialog env transcriptDialog = Confirm)) \<and>
    (\<not> truthy existing \<longrightarrow>
       ApiRequestFileTranscript fileId agentId chatId
          \<in> set (calls (effects (requestFileTranscript env fileId agentId chatId))) \<and>
       \<not> list_ex is_dialog (effects (requestFileTranscript env fileId agentId chatId))) \<and>
    ((truthy existing \<longrightarrow> dialog env transcriptDialog = Confirm) \<and>
     remote env (ApiRequestFileTranscript fileId agentId chatId) = Inr t \<longrightarrow>
       ApiUpdateItem ''files'' fileId (JObj [(''transcript'', t)])
          \<in> set (calls (effects (requestFileTranscript env fileId agentId chatId)))) \<and>
    ((truthy existing \<longrightarrow> dialog env transcriptDialog = Confirm) \<and>
     remote env (ApiRequestFileTranscript fileId agentId chatId) = Inr t \<and>
     remote env (ApiUpdateItem ''files'' fileId (JObj [(''transcript'', t)])) = Inr u \<longrightarrow>
       outcome (requestFileTranscript env fileId agentId chatId) = Inr t)"
proof (cases "truthy existing")
  case True
  show ?thesis
  proof (cases "dialog env transcriptDialog")
    case Cancel
    with assms True show ?thesis
      by (simp add: outcome_def effects_def transcript_use_existing)
  next
    case Confirm
    show ?thesis
    proof (cases "remote env (ApiRequestFileTranscript fileId agentId chatId)")
      case (Inl e)
      with assms True Confirm show ?thesis
        by (simp add: outcome_def effects_def transcript_regenerate_rejected)
    next
      case (Inr t')
      with assms True Confirm show ?thesis
        by (cases "remote env (ApiUpdateItem ''files'' fileId (JObj [(''transcript'', t')]))")
           (auto simp add: outcome_def effects_def transcript_regenerate_not_persisted
              transcript_regenerated)
    qed
  qed
next
  case False
  show ?thesis
  proof (cases "remote env (ApiRequestFileTranscript fileId agentId chatId)")
    case (Inl e)
    with assms False show ?thesis
      by (simp add: outcome_def effects_def transcript_generate_rejected)
  next
    case (Inr t')
    with assms False show ?thesis
      by (cases "remote env (ApiUpdateItem ''files'' fileId (JObj [(''transcript'', t')]))")
         (auto simp add: outcome_def effects_def transcript_generate_not_persisted
            transcript_generated)
  qed
qed

text \<open>
  C4 on three runs: a file with a transcript and the answer "Use Existing", the same file
  and the answer "Generate New", and a file without transcript.
\<close>

theorem requestFileTranscript_regenerates_only_on_request_witness:
  "truthy (JObj [(''role'', JStr ''tool'')]) \<and>
   dialog (env_of backend_with_transcript Cancel) transcriptDialog = Cancel \<and>
   outcome (requestFileTranscript (env_of backend_with_transcript Cancel) ''f1'' None None)
     = Inr (JObj [(''role'', JStr ''tool'')]) \<and>
   calls (effects (requestFileTranscript (env_of backend_with_transcript Cancel) ''f1'' None None))
     = [ApiFetchItem ''files'' (Some ''f1'')] \<and>
   dialog (env_of backend_with_transcript Confirm) transcriptDialog = Confirm \<and>
   outcome (requestFileTranscript (env_of backend_with_transcript Confirm) ''f1'' None None)
     = Inr (JObj [(''role'', JStr ''assistant'')]) \<and>
   \<not> truthy JUndefined \<and>
   ApiRequestFileTranscript ''f1'' None None
     \<in> set (calls (effects (requestFileTranscript (env_of backend_ok Cancel) ''f1'' None None))) \<and>
   outcome (requestFileTranscript (env_of backend_ok Cancel) ''f1'' None None)
     = Inr (JObj [(''role'', JStr ''assistant'')])"
  using requestFileTranscript_regenerates_only_on_request
          [of "env_of backend_with_transcript Cancel" "''f1''"
              "JObj [(''_id'', JStr ''f1''), (''transcript'', JObj [(''role'', JStr ''tool'')])]"
              "JObj [(''role'', JStr ''tool'')]" None None]
        requestFileTranscript_regenerates_only_on_request
          [of "env_of backend_with_transcript Confirm" "''f1''"
              "JObj [(''_id'', JStr ''f1''), (''transcript'', JObj [(''role'', JStr ''tool'')])]"
              "JObj [(''role'', JStr ''tool'')]" None None
              "JObj [(''role'', JStr ''assistant'')]" "JObj [(''_id'', JStr ''x1'')]"]
        requestFileTranscript_regenerates_only_on_request
          [of "env_of backend_ok Cancel" "''f1''" "JObj [(''_id'', JStr ''f1'')]" JUndefined None None
              "JObj [(''role'', JStr ''assistant'')]" "JObj [(''_id'', JStr ''x1'')]"]
  by (simp add: example_defs)

section \<open>Properties of the chat session controller\<close>

subsection \<open>Unfolding the operations\<close>

lemmas chat_defs = get_def send_def logger_error_def logger_warn_def setMessages_def
  setPastChats_def setCurrentChatId_def setAgents_def setIsGenerating_def setCurrentChat_def

lemmas chat_example_defs = user_says_def assistant_says_def search_task_def chat_with_def
  unavailable_def api_down_def api_serving_def viewing_def initial_state_def

lemmas controller_defs = fetchChats_def fetchChatById_def fetchCurrentChat_def handleSelectChat_def
  generateResponse_def handleSendMessage_def handleRegenerateResponse_def addTaskToChat_in_def
  addTaskToChat_def fetchAvailableTasks_def fetchAvailableTaskResults_def isTaskInChat_def occurrences_def
  requests_since_def

subsection \<open>\<^verbatim>\<open>generateResponse\<close> and its callers\<close>

lemma try_catch_resolved:
  assumes "fst (m s) = Inr x"
  shows "try_catch m h s = m s"
  using assms by (cases "m s") (simp add: try_catch_def)

lemma generateResponse_resolves: "fst (generateResponse api s) = Inr ()"
  by (simp add: generateResponse_def fetchCurrentChat_def fetchChatById_def prog_defs chat_defs
        split: option.splits sum.splits prod.splits)

lemma generateResponse_flag:
  "isGenerating (snd (generateResponse api s)) = (no_chat_id (currentChatId s) \<and> isGenerating s)"
  by (simp add: generateResponse_def fetchCurrentChat_def fetchChatById_def prog_defs chat_defs
        split: option.splits sum.splits prod.splits)

lemma generateResponse_no_chat:
  assumes "no_chat_id (currentChatId s)"
  shows "generateResponse api s = (Inr (), s)"
  using assms by (cases "currentChatId s") (simp_all add: generateResponse_def prog_defs chat_defs)

lemma generateResponse_extends:
  "\<exists>h. history (snd (generateResponse api s)) = history s @ h"
  by (simp add: generateResponse_def fetchCurrentChat_def fetchChatById_def prog_defs chat_defs
        split: option.splits sum.splits prod.splits)

subsection \<open>The trimming loop of \<^verbatim>\<open>handleRegenerateResponse\<close>\<close>

lemma popWhileNotUser_snoc:
  "popWhileNotUser (ms @ [m]) = (if role m \<noteq> ''user'' then popWhileNotUser ms else ms @ [m])"
  by (subst popWhileNotUser.simps) simp

lemma popWhileNotUser_Nil: "popWhileNotUser [] = []"
  by (subst popWhileNotUser.simps) simp

lemma popWhileNotUser_run:
  "\<exists>run. ms = popWhileNotUser ms @ run \<and> (\<forall>m \<in> set run. role m \<noteq> ''user'')"
proof (induction ms rule: rev_induct)
  case Nil
  show ?case by (simp add: popWhileNotUser_Nil)
next
  case (snoc m ms)
  show ?case
  proof (cases "role m = ''user''")
    case True
    then show ?thesis by (simp add: popWhileNotUser_snoc)
  next
    case False
    from snoc obtain run where "ms = popWhileNotUser ms @ run" and "\<forall>m \<in> set run. role m \<noteq> ''user''"
      by blast
    with False have "ms @ [m] = popWhileNotUser (ms @ [m]) @ (run @ [m]) \<and>
        (\<forall>m' \<in> set (run @ [m]). role m' \<noteq> ''user'')"
      by (simp add: popWhileNotUser_snoc)
    then show ?thesis by blast
  qed
qed

lemma popWhileNotUser_ends_with_user:
  "popWhileNotUser ms = [] \<or> role (last (popWhileNotUser ms)) = ''user''"
  by (induction ms rule: rev_induct) (simp_all add: popWhileNotUser_Nil popWhileNotUser_snoc)

lemma popWhileNotUser_no_user:
  "(\<forall>m \<in> set ms. role m \<noteq> ''user'') \<Longrightarrow> popWhileNotUser ms = []"
  by (induction ms rule: rev_induct) (simp_all add: popWhileNotUser_Nil popWhileNotUser_snoc)

lemma popWhileNotUser_example:
  "popWhileNotUser [user_says ''hi'', assistant_says ''a'', assistant_says ''b''] = [user_says ''hi'']"
proof -
  have "popWhileNotUser ((([] @ [user_says ''hi'']) @ [assistant_says ''a'']) @ [assistant_says ''b''])
        = [] @ [user_says ''hi'']"
    unfolding popWhileNotUser_snoc by (simp add: user_says_def assistant_says_def)
  then show ?thesis by simp
qed

lemma handleRegenerateResponse_persisted:
  assumes "currentChatId s = Some i" and "i \<noteq> []"
      and "api_updateItem_chats api i (PatchMessages (popWhileNotUser (messages s))) = Inr c"
  shows "handleRegenerateResponse api s =
     generateResponse api
       (s\<lparr>messages := popWhileNotUser (messages s),
          history := history s @
            [Request (UpdateChat i (PatchMessages (popWhileNotUser (messages s)))),
             SetMessages (popWhileNotUser (messages s))]\<rparr>)"
proof -
  let ?s' = "s\<lparr>messages := popWhileNotUser (messages s),
          history := history s @
            [Request (UpdateChat i (PatchMessages (popWhileNotUser (messages s)))),
             SetMessages (popWhileNotUser (messages s))]\<rparr>"
  have "handleRegenerateResponse api s =
      try_catch (generateResponse api) (\<lambda>error. logger_error ''Error regenerating response:'') ?s'"
    using assms
    by (simp add: handleRegenerateResponse_def Let_def then_do_def next_do_def try_catch_def chat_defs)
  then show ?thesis
    by (simp add: try_catch_resolved [OF generateResponse_resolves])
qed

lemma handleRegenerateResponse_rejected:
  assumes "currentChatId s = Some i" and "i \<noteq> []"
      and "api_updateItem_chats api i (PatchMessages (popWhileNotUser (messages s))) = Inl e"
  shows "handleRegenerateResponse api s =
     (Inr (), s\<lparr>history := history s @
                  [Request (UpdateChat i (PatchMessages (popWhileNotUser (messages s)))),
                   LoggerError ''Error regenerating response:'']\<rparr>)"
  using assms
  by (simp add: handleRegenerateResponse_def Let_def then_do_def next_do_def try_catch_def chat_defs)

lemma handleSendMessage_resolved:
  assumes "api_sendMessage api chatId message = Inr c"
  shows "handleSendMessage api chatId message s =
     generateResponse api
       (s\<lparr>messages := messages s @ [message],
          history := history s @
            [Request (SendMessageTo chatId message), SetMessages (messages s @ [message])]\<rparr>)"
proof -
  let ?s' = "s\<lparr>messages := messages s @ [message],
          history := history s @
            [Request (SendMessageTo chatId message), SetMessages (messages s @ [message])]\<rparr>"
  have "handleSendMessage api chatId message s =
      try_catch (generateResponse api)
        (\<lambda>error. logger_error ''Error sending message or generating response:'') ?s'"
    using assms
    by (simp add: handleSendMessage_def then_do_def next_do_def try_catch_def chat_defs)
  then show ?thesis
    by (simp add: try_catch_resolved [OF generateResponse_resolves])
qed

lemma handleSendMessage_rejected:
  assumes "api_sendMessage api chatId message = Inl e"
  shows "handleSendMessage api chatId message s =
     (Inr (), s\<lparr>history := history s @
                  [Request (SendMessageTo chatId message),
                   LoggerError ''Error sending message or generating response:'']\<rparr>)"
  using assms
  by (simp add: handleSendMessage_def then_do_def next_do_def try_catch_def chat_defs)


subsection \<open>Attaching a task\<close>

lemma occurrences_history [simp]:
  "occurrences (s\<lparr>history := h\<rparr>) taskId = occurrences s taskId"
  by (simp add: occurrences_def)






subsection \<open>The claims about the controller\<close>

text \<open>
  C5: for every chat id and message, when the remote send is rejected
  \<^verbatim>\<open>handleSendMessage\<close> resolves having only issued the send and logged the error: no
  state setter is called, so the local messages (and so their number) and every other
  state variable are unchanged, and nothing of \<^verbatim>\<open>generateResponse\<close> has happened (no
  generation request, \<^verbatim>\<open>isGenerating\<close> untouched). When the send resolves, what the
  operation does begins with the send and then the append, \<^verbatim>\<open>setMessages\<close> with the
  message added at the end, and it goes on as \<^verbatim>\<open>generateResponse\<close> does from the state
  with the message appended.
\<close>

theorem handleSendMessage_appends_only_after_send:
  "(api_sendMessage api chatId message = Inl e \<longrightarrow>
      handleSendMessage api chatId message s =
        (Inr (), s\<lparr>history := history s @
                     [Request (SendMessageTo chatId message),
                      LoggerError ''Error sending message or generating response:'']\<rparr>) \<and>
      messages (snd (handleSendMessage api chatId message s)) = messages s \<and>
      isGenerating (snd (handleSendMessage api chatId message s)) = isGenerating s \<and>
      requests_since s (snd (handleSendMessage api chatId message s)) = [SendMessageTo chatId message]) \<and>
   (api_sendMessage api chatId message = Inr c \<longrightarrow>
      handleSendMessage api chatId message s =
        generateResponse api
          (s\<lparr>messages := messages s @ [message],
             history := history s @
               [Request (SendMessageTo chatId message), SetMessages (messages s @ [message])]\<rparr>) \<and>
      take (length (history s) + 2) (history (snd (handleSendMessage api chatId message s))) =
        history s @ [Request (SendMessageTo chatId message), SetMessages (messages s @ [message])])"
proof (intro conjI impI)
  assume "api_sendMessage api chatId message = Inl e"
  then show "handleSendMessage api chatId message s =
        (Inr (), s\<lparr>history := history s @
                     [Request (SendMessageTo chatId message),
                      LoggerError ''Error sending message or generating response:'']\<rparr>)"
    and "messages (snd (handleSendMessage api chatId message s)) = messages s"
    and "isGenerating (snd (handleSendMessage api chatId message s)) = isGenerating s"
    and "requests_since s (snd (handleSendMessage api chatId message s)) = [SendMessageTo chatId message]"
    by (simp_all add: handleSendMessage_rejected requests_since_def)
next
  let ?s' = "s\<lparr>messages := messages s @ [message],
             history := history s @
               [Request (SendMessageTo chatId message), SetMessages (messages s @ [message])]\<rparr>"
  assume "api_sendMessage api chatId message = Inr c"
  then show run: "handleSendMessage api chatId message s = generateResponse api ?s'"
    by (rule handleSendMessage_resolved)
  obtain h where "history (snd (generateResponse api ?s')) = history ?s' @ h"
    using generateResponse_extends [of api ?s'] by blast
  with run show "take (length (history s) + 2) (history (snd (handleSendMessage api chatId message s))) =
        history s @ [Request (SendMessageTo chatId message), SetMessages (messages s @ [message])]"
    by simp
qed

text \<open>C5 with the backend down, and with a backend that accepts the message.\<close>

theorem handleSendMessage_appends_only_after_send_witness:
  "api_sendMessage api_down ''c1'' (user_says ''again'') = Inl unavailable \<and>
   messages (snd (handleSendMessage api_down ''c1'' (user_says ''again'') (viewing (chat_with []))))
     = [user_says ''hi'', assistant_says ''a'', assistant_says ''b''] \<and>
   history (snd (handleSendMessage api_down ''c1'' (user_says ''again'') (viewing (chat_with []))))
     = [Request (SendMessageTo ''c1'' (user_says ''again'')),
        LoggerError ''Error sending message or generating response:''] \<and>
   api_sendMessage (api_serving (chat_with [])) ''c1'' (user_says ''again'') = Inr (chat_with []) \<and>
   handleSendMessage (api_serving (chat_with [])) ''c1'' (user_says ''again'') initial_state =
     (Inr (), initial_state\<lparr>messages := [user_says ''again''],
                            history := [Request (SendMessageTo ''c1'' (user_says ''again'')),
                                        SetMessages [user_says ''again'']]\<rparr>)"
  using handleSendMessage_appends_only_after_send
          [of api_down "''c1''" "user_says ''again''" unavailable "viewing (chat_with [])"]
        handleSendMessage_appends_only_after_send
          [of "api_serving (chat_with [])" "''c1''" "user_says ''again''" _ initial_state "chat_with []"]
  by (simp add: api_down_def api_serving_def viewing_def chat_with_def initial_state_def
        handleSendMessage_def generateResponse_def requests_since_def prog_defs chat_defs)

text \<open>
  C6: the loop splits any local sequence into what it keeps and a trailing run of messages
  none of which has role "user"; the run is maximal, because what is kept is empty or ends
  with a user message; without any user message nothing is kept; on
  \<^verbatim>\<open>[user:"hi", assistant:"a", assistant:"b"]\<close> it keeps \<^verbatim>\<open>[user:"hi"]\<close>. With a chat
  selected, \<^verbatim>\<open>handleRegenerateResponse\<close> first sends the trimmed sequence to
  \<^verbatim>\<open>updateItem\<close>; when that resolves it then sets the local messages to the trimmed
  sequence and runs \<^verbatim>\<open>generateResponse\<close>; when it is rejected it only logs the error.
\<close>

theorem handleRegenerateResponse_trims_trailing_replies:
  "(\<exists>run. local = popWhileNotUser local @ run \<and> (\<forall>m \<in> set run. role m \<noteq> ''user'')) \<and>
   (popWhileNotUser local = [] \<or> role (last (popWhileNotUser local)) = ''user'') \<and>
   ((\<forall>m \<in> set local. role m \<noteq> ''user'') \<longrightarrow> popWhileNotUser local = []) \<and>
   popWhileNotUser [user_says ''hi'', assistant_says ''a'', assistant_says ''b''] = [user_says ''hi''] \<and>
   (currentChatId s = Some i \<and> i \<noteq> [] \<and>
    api_updateItem_chats api i (PatchMessages (popWhileNotUser (messages s))) = Inr c \<longrightarrow>
      handleRegenerateResponse api s =
        generateResponse api
          (s\<lparr>messages := popWhileNotUser (messages s),
             history := history s @
               [Request (UpdateChat i (PatchMessages (popWhileNotUser (messages s)))),
                SetMessages (popWhileNotUser (messages s))]\<rparr>)) \<and>
   (currentChatId s = Some i \<and> i \<noteq> [] \<and>
    api_updateItem_chats api i (PatchMessages (popWhileNotUser (messages s))) = Inl e \<longrightarrow>
      handleRegenerateResponse api s =
        (Inr (), s\<lparr>history := history s @
                     [Request (UpdateChat i (PatchMessages (popWhileNotUser (messages s)))),
                      LoggerError ''Error regenerating response:'']\<rparr>))"
  using popWhileNotUser_run [of local] popWhileNotUser_ends_with_user [of local]
        popWhileNotUser_no_user [of local] popWhileNotUser_example
  by (simp add: handleRegenerateResponse_persisted handleRegenerateResponse_rejected)

text \<open>C6 on the chat \<open>c1\<close>, with a backend that answers and with the backend down.\<close>

theorem handleRegenerateResponse_trims_trailing_replies_witness:
  "role (assistant_says ''a'') \<noteq> ''user'' \<and> role (assistant_says ''b'') \<noteq> ''user'' \<and>
   popWhileNotUser [assistant_says ''a'', assistant_says ''b''] = [] \<and>
   currentChatId (viewing (chat_with [])) = Some ''c1'' \<and>
   api_updateItem_chats (api_serving (chat_with [])) ''c1'' (PatchMessages [user_says ''hi''])
     = Inr (chat_with []) \<and>
   requests_since (viewing (chat_with []))
     (snd (handleRegenerateResponse (api_serving (chat_with [])) (viewing (chat_with []))))
     = [UpdateChat ''c1'' (PatchMessages [user_says ''hi'']), GenerateResponseFor ''c1'',
        FetchChat ''c1''] \<and>
   api_updateItem_chats api_down ''c1'' (PatchMessages [user_says ''hi'']) = Inl unavailable \<and>
   handleRegenerateResponse api_down (viewing (chat_with [])) =
     (Inr (), (viewing (chat_with []))
                \<lparr>history := [Request (UpdateChat ''c1'' (PatchMessages [user_says ''hi''])),
                              LoggerError ''Error regenerating response:'']\<rparr>)"
  using handleRegenerateResponse_trims_trailing_replies
          [of "[assistant_says ''a'', assistant_says ''b'']" "viewing (chat_with [])" "''c1''"
              "api_serving (chat_with [])" "chat_with []"]
        handleRegenerateResponse_trims_trailing_replies
          [of "[]" "viewing (chat_with [])" "''c1''" api_down _ unavailable]
  by (simp add: generateResponse_def fetchCurrentChat_def fetchChatById_def requests_since_def
        chat_example_defs prog_defs chat_defs)

text \<open>
  C7, as stated, fails on the exit path without a selected chat: \<^verbatim>\<open>generateResponse\<close>
  returns before it touches \<^verbatim>\<open>isGenerating\<close>, so a flag that was set (the provider exports
  \<^verbatim>\<open>setIsGenerating\<close>) stays set.
\<close>

theorem generateResponse_leaves_flag_set_without_chat:
  "isGenerating (snd (generateResponse api_down (initial_state\<lparr>isGenerating := True\<rparr>)))"
  by (simp add: generateResponse_def initial_state_def prog_defs chat_defs)

text \<open>
  C7, amended: \<^verbatim>\<open>generateResponse\<close> always resolves. With a chat selected it leaves
  \<^verbatim>\<open>isGenerating\<close> false, whether the remote generation call resolves (truthy or falsy)
  or is rejected. With no chat selected it changes nothing, \<^verbatim>\<open>isGenerating\<close> included.
\<close>

theorem generateResponse_clears_flag:
  "fst (generateResponse api s) = Inr () \<and>
   (\<not> no_chat_id (currentChatId s) \<longrightarrow> \<not> isGenerating (snd (generateResponse api s))) \<and>
   (no_chat_id (currentChatId s) \<longrightarrow> generateResponse api s = (Inr (), s))"
  by (simp add: generateResponse_resolves generateResponse_flag generateResponse_no_chat)

text \<open>C7, amended, with the backend down, with a backend that answers, and without chat.\<close>

theorem generateResponse_clears_flag_witness:
  "\<not> no_chat_id (currentChatId (viewing (chat_with []))) \<and>
   \<not> isGenerating (snd (generateResponse api_down (viewing (chat_with [])))) \<and>
   \<not> isGenerating (snd (generateResponse (api_serving (chat_with [])) (viewing (chat_with [])))) \<and>
   no_chat_id (currentChatId initial_state) \<and>
   generateResponse api_down initial_state = (Inr (), initial_state)"
  using generateResponse_clears_flag [of api_down "viewing (chat_with [])"]
        generateResponse_clears_flag [of "api_serving (chat_with [])" "viewing (chat_with [])"]
        generateResponse_clears_flag [of api_down initial_state]
  by (simp add: viewing_def initial_state_def)




text \<open>
  C9: when the backend returns a single item, \<^verbatim>\<open>fetchAvailableTasks\<close> and
  \<^verbatim>\<open>fetchAvailableTaskResults\<close> resolve with the one-element sequence of that item; when
  it returns a collection they resolve with that collection.
\<close>

theorem fetchAvailable_normalises_single_item:
  "(api_fetchItem_tasks api = Inr (Single t) \<longrightarrow> fst (fetchAvailableTasks api s) = Inr [t]) \<and>
   (api_fetchItem_tasks api = Inr (Collection ts) \<longrightarrow> fst (fetchAvailableTasks api s) = Inr ts) \<and>
   (api_fetchItem_taskresults api = Inr (Single r) \<longrightarrow> fst (fetchAvailableTaskResults api s) = Inr [r]) \<and>
   (api_fetchItem_taskresults api = Inr (Collection rs) \<longrightarrow>
      fst (fetchAvailableTaskResults api s) = Inr rs)"
  by (simp add: fetchAvailableTasks_def fetchAvailableTaskResults_def prog_defs chat_defs)

text \<open>
  C9 on a backend with a single task and a collection of task results, and on one with a
  collection of tasks and a single task result.
\<close>

theorem fetchAvailable_normalises_single_item_witness:
  "api_fetchItem_tasks (api_serving (chat_with [])) = Inr (Single search_task) \<and>
   fst (fetchAvailableTasks (api_serving (chat_with [])) initial_state) = Inr [search_task] \<and>
   api_fetchItem_taskresults (api_serving (chat_with [])) = Inr (Collection [''r1'', ''r2'']) \<and>
   fst (fetchAvailableTaskResults (api_serving (chat_with [])) initial_state) = Inr [''r1'', ''r2''] \<and>
   api_fetchItem_tasks
     (api_down\<lparr>api_fetchItem_tasks := Inr (Collection [search_task]),
               api_fetchItem_taskresults := Inr (Single ''r1'')\<rparr>) = Inr (Collection [search_task]) \<and>
   fst (fetchAvailableTasks
          (api_down\<lparr>api_fetchItem_tasks := Inr (Collection [search_task]),
                    api_fetchItem_taskresults := Inr (Single ''r1'')\<rparr>) initial_state)
     = Inr [search_task] \<and>
   api_fetchItem_taskresults
     (api_down\<lparr>api_fetchItem_tasks := Inr (Collection [search_task]),
               api_fetchItem_taskresults := Inr (Single ''r1'')\<rparr>) = Inr (Single ''r1'') \<and>
   fst (fetchAvailableTaskResults
          (api_down\<lparr>api_fetchItem_tasks := Inr (Collection [search_task]),
                    api_fetchItem_taskresults := Inr (Single ''r1'')\<rparr>) initial_state)
     = Inr [''r1'']"
  using fetchAvailable_normalises_single_item
          [of "api_serving (chat_with [])" search_task initial_state _ _ "[''r1'', ''r2'']"]
        fetchAvailable_normalises_single_item
          [of "api_down\<lparr>api_fetchItem_tasks := Inr (Collection [search_task]),
                        api_fetchItem_taskresults := Inr (Single ''r1'')\<rparr>"
              _ initial_state "[search_task]" "''r1''"]
  by (simp add: api_serving_def api_down_def)

text \<open>
  C10: when the fetch is rejected, \<^verbatim>\<open>fetchAvailableTasks\<close> and
  \<^verbatim>\<open>fetchAvailableTaskResults\<close> resolve with the empty sequence, which is also what they
  resolve with on a backend that returns the empty collection.
\<close>

theorem fetchAvailable_failure_is_empty:
  "(api_fetchItem_tasks api = Inl e \<longrightarrow> fst (fetchAvailableTasks api s) = Inr []) \<and>
   (api_fetchItem_taskresults api = Inl e \<longrightarrow> fst (fetchAvailableTaskResults api s) = Inr []) \<and>
   (api_fetchItem_tasks api = Inl e \<and> api_fetchItem_tasks api' = Inr (Collection []) \<longrightarrow>
      fst (fetchAvailableTasks api s) = fst (fetchAvailableTasks api' s)) \<and>
   (api_fetchItem_taskresults api = Inl e \<and> api_fetchItem_taskresults api' = Inr (Collection []) \<longrightarrow>
      fst (fetchAvailableTaskResults api s) = fst (fetchAvailableTaskResults api' s))"
  by (simp add: fetchAvailableTasks_def fetchAvailableTaskResults_def prog_defs chat_defs)

text \<open>C10 with the backend down, against a backend whose collections are empty.\<close>

theorem fetchAvailable_failure_is_empty_witness:
  "api_fetchItem_tasks api_down = Inl unavailable \<and>
   fst (fetchAvailableTasks api_down initial_state) = Inr [] \<and>
   api_fetchItem_taskresults api_down = Inl unavailable \<and>
   fst (fetchAvailableTaskResults api_down initial_state) = Inr [] \<and>
   api_fetchItem_tasks
     (api_down\<lparr>api_fetchItem_tasks := Inr (Collection []),
               api_fetchItem_taskresults := Inr (Collection [])\<rparr>) = Inr (Collection []) \<and>
   fst (fetchAvailableTasks api_down initial_state) =
     fst (fetchAvailableTasks
            (api_down\<lparr>api_fetchItem_tasks := Inr (Collection []),
                      api_fetchItem_taskresults := Inr (Collection [])\<rparr>) initial_state) \<and>
   api_fetchItem_taskresults
     (api_down\<lparr>api_fetchItem_tasks := Inr (Collection []),
               api_fetchItem_taskresults := Inr (Collection [])\<rparr>) = Inr (Collection []) \<and>
   fst (fetchAvailableTaskResults api_down initial_state) =
     fst (fetchAvailableTaskResults
            (api_down\<lparr>api_fetchItem_tasks := Inr (Collection []),
                      api_fetchItem_taskresults := Inr (Collection [])\<rparr>) initial_state)"
  using fetchAvailable_failure_is_empty
          [of api_down unavailable initial_state
              "api_down\<lparr>api_fetchItem_tasks := Inr (Collection []),
                        api_fetchItem_taskresults := Inr (Collection [])\<rparr>"]
  by (simp add: controller_defs chat_example_defs prog_defs chat_defs)

end
